(* ===== verification/Prelude.thy ===== *)
theory Prelude
  imports Main "HOL-Library.State_Monad"
begin

text \<open>
  Shared vocabulary of the development: the types that name paths and
  attribute dictionaries, the Python string helpers the models use
  (\<open>str.split\<close> on a separator, \<open>str.upper\<close>, \<open>str.lower\<close> on ASCII text),
  a loop combinator for the state monad (Python's \<open>for x in xs: f(x)\<close>),
  and the lemmas about them that the component theories share.
\<close>

named_theorems run_simps
  "equations that run the monadic model one primitive at a time"

type_synonym path = "string list"
  \<comment> \<open>a POSIX path, split into its components; the root is \<open>[]\<close>\<close>

type_synonym attrs = "(string \<times> string) list"
  \<comment> \<open>a Python dict from strings to strings, in insertion order\<close>

subsection \<open>Strings\<close>

fun split_when :: "(char \<Rightarrow> bool) \<Rightarrow> string \<Rightarrow> string list" where
  "split_when P [] = [[]]"
| "split_when P (x # xs) =
     (if P x then [] # split_when P xs
      else (case split_when P xs of w # ws \<Rightarrow> (x # w) # ws | [] \<Rightarrow> [[x]]))"

abbreviation split_sep :: "char \<Rightarrow> string \<Rightarrow> string list" where
  "split_sep c \<equiv> split_when (\<lambda>x. x = c)"

definition is_space :: "char \<Rightarrow> bool" where
  "is_space c \<longleftrightarrow> c \<in> set [CHR '' '', CHR 0x09, CHR 0x0A, CHR 0x0B, CHR 0x0C, CHR 0x0D]"

definition py_split :: "string \<Rightarrow> string list" where
  \<comment> \<open>\<open>str.split()\<close> with no separator: runs of white space separate, no empty words\<close>
  "py_split s = filter (\<lambda>w. w \<noteq> []) (split_when is_space s)"

fun py_join :: "string \<Rightarrow> string list \<Rightarrow> string" where
  "py_join sep [] = []"
| "py_join sep [w] = w"
| "py_join sep (w # ws) = w @ sep @ py_join sep ws"

definition upper_char :: "char \<Rightarrow> char" where
  "upper_char c =
     (let n = (of_char c :: nat) in if 97 \<le> n \<and> n \<le> 122 then char_of (n - 32) else c)"

definition lower_char :: "char \<Rightarrow> char" where
  "lower_char c =
     (let n = (of_char c :: nat) in if 65 \<le> n \<and> n \<le> 90 then char_of (n + 32) else c)"

definition py_upper :: "string \<Rightarrow> string" where
  "py_upper s = map upper_char s"

definition py_lower :: "string \<Rightarrow> string" where
  "py_lower s = map lower_char s"

lemma split_when_nonempty [simp]: "split_when P s \<noteq> []"
  by (induction s) (auto split: list.split)

lemma split_when_no_sep:
  "\<not> list_ex P s \<Longrightarrow> split_when P s = [s]"
  by (induction s) auto

lemma split_when_append_sep:
  "\<not> list_ex P s \<Longrightarrow> P c \<Longrightarrow> split_when P (s @ c # t) = s # split_when P t"
  by (induction s) auto

lemma split_when_append:
  "P c \<Longrightarrow> split_when P (s @ c # t) = split_when P s @ split_when P t"
  by (induction s) (auto split: list.split)

subsection \<open>Loops in the state monad\<close>

primrec state_iter :: "('a \<Rightarrow> ('s, unit) state) \<Rightarrow> 'a list \<Rightarrow> ('s, unit) state" where
  "state_iter f [] = State_Monad.return ()"
| "state_iter f (x # xs) = State_Monad.bind (f x) (\<lambda>_. state_iter f xs)"

lemma run_state_iter_Nil [run_simps, simp]:
  "run_state (state_iter f []) s = ((), s)"
  by simp

lemma run_state_iter_Cons [run_simps, simp]:
  "run_state (state_iter f (x # xs)) s =
     run_state (state_iter f xs) (snd (run_state (f x) s))"
  by (simp split: prod.split)

lemma state_iter_append:
  "state_iter f (xs @ ys) = State_Monad.bind (state_iter f xs) (\<lambda>_. state_iter f ys)"
  by (induction xs) simp_all

text \<open>A property kept by every step of an iteration is kept by the iteration.\<close>

lemma state_iter_invariant:
  assumes "\<And>x w. x \<in> set xs \<Longrightarrow> P w \<Longrightarrow> P (snd (run_state (f x) w))" and "P w"
  shows "P (snd (run_state (state_iter f xs) w))"
  using assms
proof (induction xs arbitrary: w)
  case (Cons a xs)
  have "P (snd (run_state (f a) w))" using Cons.prems by simp
  then have "P (snd (run_state (state_iter f xs) (snd (run_state (f a) w))))"
    using Cons.prems(1) by (intro Cons.IH) auto
  then show ?case by (simp only: run_state_iter_Cons)
qed simp

lemma snd_run_then_return:
  "snd (run_state (State_Monad.bind m (\<lambda>_. State_Monad.return x)) w) = snd (run_state m w)"
  "snd (case run_state m w of (a, s') \<Rightarrow> (x, s')) = snd (run_state m w)"
  by (simp_all split: prod.split)

subsection \<open>Lists\<close>

lemma butlast_neq_self: "p \<noteq> [] \<Longrightarrow> butlast p \<noteq> p"
  by (metis append_butlast_last_id append_self_conv self_append_conv2 snoc_eq_iff_butlast)

lemma length_butlast_less: "p \<noteq> [] \<Longrightarrow> length (butlast p) < length p"
  by simp

end
