(* ===== verification/Py_OS.thy ===== *)
theory Py_OS
  imports Prelude
begin

text \<open>
  The part of the Python runtime the script touches outside the diagrams
  library: the exceptions it can raise, a POSIX file system with
  \<open>os.makedirs\<close>, \<open>open(..., "w")\<close> and \<open>os.remove\<close>, standard output for
  \<open>print\<close>, and the process state that carries them, as an extensible
  record so that the diagrams library can add its global context to it.
  A raised exception is a value in the field \<open>exc\<close>: every primitive is
  guarded, so once an exception is pending the statements after it do
  nothing, as in the interpreter, while the \<open>__exit__\<close> code of a
  \<open>with\<close> block (in the diagrams library theory) still runs.
\<close>

datatype pyerror =
    EnvironmentError string
  | ValueError string
  | TypeError
  | AttributeError
  | FileExistsError path
  | FileNotFoundError path
  | NotADirectoryError path
  | IsADirectoryError path
  | ExecutableNotFound
  | NotModelled

datatype 'c fsobj = Dir | File 'c

type_synonym 'c fs = "path \<Rightarrow> 'c fsobj option"

datatype event =
    Stdout string
  | Mkdirs path
  | Wrote path
  | Unlinked path

record 'c world =
  fs :: "'c fs"
  out :: "event list"
  exc :: "pyerror option"

subsection \<open>Paths\<close>

definition path_of :: "string \<Rightarrow> path" where
  "path_of s = filter (\<lambda>w. w \<noteq> []) (split_sep CHR ''/'' s)"

text \<open>\<open>os.path.dirname\<close> (\<open>posixpath.dirname\<close>): everything up to the last
  \<open>/\<close>, with trailing slashes stripped unless only slashes remain.\<close>

definition py_dirname :: "string \<Rightarrow> string" where
  "py_dirname p =
     (let head = rev (dropWhile (\<lambda>c. c \<noteq> CHR ''/'') (rev p)) in
      if head \<noteq> [] \<and> \<not> list_all (\<lambda>c. c = CHR ''/'') head
      then rev (dropWhile (\<lambda>c. c = CHR ''/'') (rev head)) else head)"

subsection \<open>The file system\<close>

text \<open>
  The root \<open>[]\<close> is always a directory and is not stored; every other entry
  lives in a directory. \<open>fs_ok\<close> is the tree invariant every operation keeps.
\<close>

definition fs_ok :: "'c fs \<Rightarrow> bool" where
  "fs_ok f \<longleftrightarrow> f [] = None \<and>
     (\<forall>p v. f p = Some v \<longrightarrow> butlast p = [] \<or> f (butlast p) = Some Dir)"

definition path_exists :: "'c fs \<Rightarrow> path \<Rightarrow> bool" where
  "path_exists f p \<longleftrightarrow> p = [] \<or> f p \<noteq> None"

definition is_dir :: "'c fs \<Rightarrow> path \<Rightarrow> bool" where
  "is_dir f p \<longleftrightarrow> p = [] \<or> f p = Some Dir"

text \<open>Resolution of the directory that holds \<open>p\<close>, as the system calls do it.\<close>

definition parent_error :: "'c fs \<Rightarrow> path \<Rightarrow> pyerror option" where
  "parent_error f p =
     (let q = butlast p in
      if is_dir f q then None
      else if f q = None then Some (FileNotFoundError p)
      else Some (NotADirectoryError p))"

definition mkdir :: "'c fs \<Rightarrow> path \<Rightarrow> pyerror + 'c fs" where
  "mkdir f p =
     (if p = [] then Inl (FileExistsError p)
      else case parent_error f p of
        Some e \<Rightarrow> Inl e
      | None \<Rightarrow> if f p \<noteq> None then Inl (FileExistsError p) else Inr (f(p \<mapsto> Dir)))"

text \<open>
  CPython's \<open>os.makedirs(name, exist_ok)\<close>: create the missing parent first
  (ignoring \<open>FileExistsError\<close> there), then \<open>mkdir(name)\<close>, and swallow its
  \<open>OSError\<close> only when \<open>exist_ok\<close> holds and \<open>name\<close> is a directory.
\<close>

function makedirs :: "bool \<Rightarrow> path \<Rightarrow> 'c fs \<Rightarrow> pyerror + 'c fs" where
  "makedirs exist_ok p f =
     (let r = (if p \<noteq> [] \<and> \<not> path_exists f (butlast p)
               then (case makedirs exist_ok (butlast p) f of
                       Inl (FileExistsError _) \<Rightarrow> Inr f
                     | r' \<Rightarrow> r')
               else Inr f)
      in case r of
        Inl e \<Rightarrow> Inl e
      | Inr f' \<Rightarrow>
          (case mkdir f' p of
            Inr f'' \<Rightarrow> Inr f''
          | Inl e \<Rightarrow> if exist_ok \<and> is_dir f' p then Inr f' else Inl e))"
  by pat_completeness auto
termination
  by (relation "measure (\<lambda>(_, p, _). length p)") auto

declare makedirs.simps [simp del]

text \<open>\<open>open(p, "w")\<close> followed by a write of the whole content.\<close>

definition open_write :: "'c fs \<Rightarrow> path \<Rightarrow> 'c \<Rightarrow> pyerror + 'c fs" where
  "open_write f p c =
     (if p = [] then Inl (IsADirectoryError p)
      else case parent_error f p of
        Some e \<Rightarrow> Inl e
      | None \<Rightarrow> if f p = Some Dir then Inl (IsADirectoryError p) else Inr (f(p \<mapsto> File c)))"

definition remove :: "'c fs \<Rightarrow> path \<Rightarrow> pyerror + 'c fs" where
  "remove f p =
     (if p = [] then Inl (IsADirectoryError p)
      else case parent_error f p of
        Some e \<Rightarrow> Inl e
      | None \<Rightarrow> (case f p of
          None \<Rightarrow> Inl (FileNotFoundError p)
        | Some Dir \<Rightarrow> Inl (IsADirectoryError p)
        | Some (File _) \<Rightarrow> Inr (f(p := None))))"

subsection \<open>Guarded primitives of the process\<close>

definition guarded ::
  "'a \<Rightarrow> (('c, 'm) world_scheme, 'a) state \<Rightarrow> (('c, 'm) world_scheme, 'a) state" where
  "guarded d m = State (\<lambda>w. if exc w = None then run_state m w else (d, w))"

definition py_raise :: "pyerror \<Rightarrow> (('c, 'm) world_scheme, unit) state" where
  "py_raise e = guarded () (State (\<lambda>w. ((), w\<lparr>exc := Some e\<rparr>)))"

definition fs_op ::
  "('c fs \<Rightarrow> pyerror + 'c fs) \<Rightarrow> event list \<Rightarrow> (('c, 'm) world_scheme, unit) state" where
  "fs_op g evs = guarded ()
     (State (\<lambda>w. case g (fs w) of
        Inl e \<Rightarrow> ((), w\<lparr>exc := Some e\<rparr>)
      | Inr f \<Rightarrow> ((), w\<lparr>fs := f, out := out w @ evs\<rparr>)))"

definition py_print :: "string \<Rightarrow> (('c, 'm) world_scheme, unit) state" where
  "py_print s = guarded () (State (\<lambda>w. ((), w\<lparr>out := out w @ [Stdout s]\<rparr>)))"

definition os_makedirs :: "string \<Rightarrow> bool \<Rightarrow> (('c, 'm) world_scheme, unit) state" where
  "os_makedirs name exist_ok =
     fs_op (makedirs exist_ok (path_of name)) [Mkdirs (path_of name)]"

definition write_file :: "string \<Rightarrow> 'c \<Rightarrow> (('c, 'm) world_scheme, unit) state" where
  "write_file name c = fs_op (\<lambda>f. open_write f (path_of name) c) [Wrote (path_of name)]"

definition os_remove :: "string \<Rightarrow> (('c, 'm) world_scheme, unit) state" where
  "os_remove name = fs_op (\<lambda>f. remove f (path_of name)) [Unlinked (path_of name)]"

subsection \<open>The result of \<open>os.makedirs\<close>\<close>

text \<open>The non-empty prefixes of a path, outermost first, and the file system
  with every missing one created as a directory.\<close>

definition ancestors :: "path \<Rightarrow> path list" where
  "ancestors p = map (\<lambda>i. take i p) [1..<Suc (length p)]"

definition not_file :: "'c fs \<Rightarrow> path \<Rightarrow> bool" where
  "not_file f q = (case f q of Some (File _) \<Rightarrow> False | _ \<Rightarrow> True)"

definition mk_dirs :: "path \<Rightarrow> 'c fs \<Rightarrow> 'c fs" where
  "mk_dirs p f = (\<lambda>q. if q \<in> set (ancestors p) \<and> f q = None then Some Dir else f q)"

declare guarded_def [run_simps] py_raise_def [run_simps] fs_op_def [run_simps]
  py_print_def [run_simps] os_makedirs_def [run_simps] write_file_def [run_simps]
  os_remove_def [run_simps]

subsection \<open>Lemmas: single file operations\<close>

lemma parent_error_is_dir: "is_dir f (butlast p) \<Longrightarrow> parent_error f p = None"
  by (simp add: parent_error_def Let_def)

lemma open_write_ok:
  "p \<noteq> [] \<Longrightarrow> is_dir f (butlast p) \<Longrightarrow> f p \<noteq> Some Dir \<Longrightarrow>
   open_write f p c = Inr (f(p \<mapsto> File c))"
  by (simp add: open_write_def parent_error_is_dir)

lemma remove_ok:
  "p \<noteq> [] \<Longrightarrow> is_dir f (butlast p) \<Longrightarrow> f p = Some (File c) \<Longrightarrow>
   remove f p = Inr (f(p := None))"
  by (simp add: remove_def parent_error_is_dir)

lemma path_of_append_name:
  "name \<noteq> [] \<Longrightarrow> CHR ''/'' \<notin> set name \<Longrightarrow>
   path_of (s @ CHR ''/'' # name) = path_of s @ [name]"
  by (simp add: path_of_def split_when_append split_when_no_sep list_ex_iff)

lemma path_of_snoc_sep: "path_of (s @ [CHR ''/'']) = path_of s"
  using split_when_append[of "\<lambda>x. x = CHR ''/''" "CHR ''/''" s "[]"] by (simp add: path_of_def)

lemma path_of_rstrip: "path_of (rev (dropWhile (\<lambda>c. c = CHR ''/'') (rev s))) = path_of s"
proof (induction s rule: rev_induct)
  case (snoc c s)
  then show ?case by (cases "c = CHR ''/''") (simp_all add: path_of_snoc_sep)
qed simp

lemma py_dirname_append:
  assumes "CHR ''/'' \<notin> set name"
  shows "py_dirname (s @ CHR ''/'' # name) \<noteq> [] \<and> path_of (py_dirname (s @ CHR ''/'' # name)) = path_of s"
proof -
  have "dropWhile (\<lambda>c. c \<noteq> CHR ''/'') (rev name @ CHR ''/'' # rev s) = CHR ''/'' # rev s"
    using assms by (subst dropWhile_append2) auto
  then have head: "rev (dropWhile (\<lambda>c. c \<noteq> CHR ''/'') (rev (s @ CHR ''/'' # name))) = s @ [CHR ''/'']"
    by simp
  show ?thesis
  proof (cases "list_all (\<lambda>c. c = CHR ''/'') (s @ [CHR ''/''])")
    case True
    then show ?thesis unfolding py_dirname_def Let_def head by (simp add: path_of_snoc_sep)
  next
    case False
    then have "\<exists>c \<in> set s. c \<noteq> CHR ''/''" by (auto simp: list_all_iff)
    then have "dropWhile (\<lambda>c. c = CHR ''/'') (rev s) \<noteq> []" by (auto simp: dropWhile_eq_Nil_conv)
    then show ?thesis using False unfolding py_dirname_def Let_def head by (simp add: path_of_rstrip)
  qed
qed

lemma is_dir_upd_other:
  "q \<noteq> p \<Longrightarrow> is_dir (f(q \<mapsto> v)) p = is_dir f p"
  "q \<noteq> p \<Longrightarrow> is_dir (f(q := None)) p = is_dir f p"
  by (simp_all add: is_dir_def)

subsection \<open>Lemmas: \<open>os.makedirs\<close>\<close>

lemma ancestors_Nil [simp]: "ancestors [] = []"
  by (simp add: ancestors_def)

lemma ancestors_snoc: "ancestors (xs @ [x]) = ancestors xs @ [xs @ [x]]"
  by (auto simp: ancestors_def)

lemma ancestors_butlast:
  "p \<noteq> [] \<Longrightarrow> ancestors p = ancestors (butlast p) @ [p]"
  by (metis ancestors_snoc append_butlast_last_id)

lemma length_ancestor: "q \<in> set (ancestors p) \<Longrightarrow> length q \<le> length p"
  by (auto simp: ancestors_def)

lemma mk_dirs_beyond: "length p < length q \<Longrightarrow> mk_dirs p f q = f q"
  using length_ancestor[of q p] by (auto simp: mk_dirs_def)

lemma fs_ok_parent_dir:
  "fs_ok f \<Longrightarrow> f p \<noteq> None \<Longrightarrow> butlast p \<noteq> [] \<Longrightarrow> f (butlast p) = Some Dir"
  by (auto simp: fs_ok_def)

lemma fs_ok_ancestors_dir:
  assumes "fs_ok f" "f p \<noteq> None"
  shows "q \<in> set (ancestors (butlast p)) \<Longrightarrow> f q = Some Dir"
  using assms(2)
proof (induction p rule: rev_induct)
  case Nil then show ?case by simp
next
  case (snoc x xs)
  show ?case
  proof (cases "xs = []")
    case True with snoc show ?thesis by simp
  next
    case False
    have dir: "f xs = Some Dir"
      using fs_ok_parent_dir[OF assms(1) snoc.prems(2)] False by simp
    from snoc.prems(1) False consider "q \<in> set (ancestors (butlast xs))" | "q = xs"
      by (auto simp: ancestors_butlast[OF False])
    then show ?thesis
    proof cases
      case 1 then show ?thesis using snoc.IH dir by simp
    next
      case 2 then show ?thesis using dir by simp
    qed
  qed
qed

lemma makedirs_exist_ok:
  "fs_ok f \<Longrightarrow> list_all (not_file f) (ancestors p) \<Longrightarrow> makedirs True p f = Inr (mk_dirs p f)"
proof (induction True p f rule: makedirs.induct)
  case (1 p f)
  show ?case
  proof (cases "p = []")
    case True
    then show ?thesis
      by (simp add: makedirs.simps mkdir_def is_dir_def mk_dirs_def)
  next
    case False
    let ?q = "butlast p"
    have anc: "ancestors p = ancestors ?q @ [p]" using False by (rule ancestors_butlast)
    have nf_p: "not_file f p" and nf_q: "list_all (not_file f) (ancestors ?q)"
      using "1.prems"(2) anc by auto
    show ?thesis
    proof (cases "path_exists f ?q")
      case True
      have up: "f q = Some Dir" if "q \<in> set (ancestors ?q)" for q
      proof (cases "?q = []")
        case True with that show ?thesis by simp
      next
        case False
        then have "f ?q \<noteq> None" using \<open>path_exists f ?q\<close> by (simp add: path_exists_def)
        then have "f ?q = Some Dir"
          using nf_q False by (auto simp: not_file_def list_all_iff ancestors_butlast split: option.splits fsobj.splits)
        moreover have "q = ?q \<or> q \<in> set (ancestors (butlast ?q))"
          using that False by (auto simp: ancestors_butlast[OF False])
        ultimately show ?thesis
          using fs_ok_ancestors_dir[OF "1.prems"(1), of ?q q] by auto
      qed
      have pdir: "is_dir f ?q"
        using up False by (cases "?q = []") (auto simp: is_dir_def ancestors_butlast)
      show ?thesis
      proof (cases "f p")
        case None
        have "mk_dirs p f = f(p \<mapsto> Dir)"
          using up None by (auto simp: mk_dirs_def anc fun_eq_iff)
        then show ?thesis
          using True False None pdir
          by (simp add: makedirs.simps [of True p f] mkdir_def parent_error_is_dir)
      next
        case (Some v)
        then have "v = Dir" using nf_p by (cases v) (auto simp: not_file_def)
        have "mk_dirs p f = f"
          using up Some by (auto simp: mk_dirs_def anc fun_eq_iff)
        then show ?thesis
          using True False Some \<open>v = Dir\<close> pdir
          by (simp add: makedirs.simps [of True p f] mkdir_def parent_error_is_dir is_dir_def)
      qed
    next
      case nex: False
      then have qne: "?q \<noteq> []" and qnone: "f ?q = None" by (auto simp: path_exists_def)
      have IH: "makedirs True ?q f = Inr (mk_dirs ?q f)"
        using "1" False nex nf_q by blast
      have fp: "f p = None"
        using fs_ok_parent_dir[OF "1.prems"(1), of p] qne qnone by fastforce
      have pdir: "is_dir (mk_dirs ?q f) ?q"
        using qne qnone by (simp add: is_dir_def mk_dirs_def ancestors_butlast)
      have pnot: "mk_dirs ?q f p = None"
      proof -
        have "p \<notin> set (ancestors ?q)"
          using length_ancestor[of p ?q] False by (cases p) auto
        then show ?thesis using fp by (simp add: mk_dirs_def)
      qed
      have "mk_dirs p f = (mk_dirs ?q f)(p \<mapsto> Dir)"
        using fp by (auto simp: mk_dirs_def anc fun_eq_iff)
      then show ?thesis
        using False nex IH pdir pnot
        by (simp add: makedirs.simps [of True p f] mkdir_def parent_error_is_dir)
    qed
  qed
qed

text \<open>\<open>os.makedirs(p, exist_ok=True)\<close> on an existing directory changes nothing.\<close>

lemma makedirs_existing_dir:
  "is_dir f p \<Longrightarrow> is_dir f (butlast p) \<Longrightarrow> makedirs True p f = Inr f"
  by (subst makedirs.simps) (auto simp: mkdir_def path_exists_def is_dir_def parent_error_def split: option.splits)

lemma butlast_ancestor:
  assumes "q \<in> set (ancestors p)" "butlast q \<noteq> []"
  shows "butlast q \<in> set (ancestors p)"
proof -
  from assms(1) obtain i where q: "q = take i p" "1 \<le> i" "i \<le> length p"
    by (auto simp: ancestors_def)
  then have b: "butlast q = take (i - 1) p" by (simp add: butlast_take)
  with assms(2) have "1 \<le> i - 1" by (cases "i - 1") auto
  with b q show ?thesis by (force simp: ancestors_def image_iff)
qed

lemma mk_dirs_is_dir:
  assumes "list_all (not_file f) (ancestors p)" "q \<in> set (ancestors p)"
  shows "is_dir (mk_dirs p f) q"
proof -
  have "not_file f q" using assms by (simp add: list_all_iff)
  then show ?thesis using assms(2)
    by (cases "f q") (auto simp: mk_dirs_def is_dir_def not_file_def split: fsobj.splits)
qed

lemma fs_ok_mk_dirs:
  assumes ok: "fs_ok f" and nf: "list_all (not_file f) (ancestors p)"
  shows "fs_ok (mk_dirs p f)"
  unfolding fs_ok_def
proof (intro conjI allI impI)
  have "[] \<notin> set (ancestors p)" by (auto simp: ancestors_def)
  then show "mk_dirs p f [] = None" using ok by (simp add: mk_dirs_def fs_ok_def)
next
  fix q v
  assume q: "mk_dirs p f q = Some v"
  show "butlast q = [] \<or> mk_dirs p f (butlast q) = Some Dir"
  proof (cases "butlast q = []")
    case False
    show ?thesis
    proof (cases "f q = None")
      case True
      with q have "q \<in> set (ancestors p)" by (auto simp: mk_dirs_def split: if_splits)
      then have "butlast q \<in> set (ancestors p)" using False by (rule butlast_ancestor)
      with nf have "is_dir (mk_dirs p f) (butlast q)" by (rule mk_dirs_is_dir)
      with False show ?thesis by (simp add: is_dir_def)
    next
      case False
      with ok \<open>butlast q \<noteq> []\<close> have "f (butlast q) = Some Dir" by (rule_tac fs_ok_parent_dir) auto
      then show ?thesis by (simp add: mk_dirs_def)
    qed
  qed simp
qed

lemma makedirs_file_on_path:
  "fs_ok f \<Longrightarrow> \<not> list_all (not_file f) (ancestors p) \<Longrightarrow> \<exists>e. makedirs ok p f = Inl e"
proof (induction ok p f rule: makedirs.induct)
  case (1 ok p f)
  have "p \<noteq> []" using "1.prems"(2) by auto
  let ?q = "butlast p"
  have anc: "ancestors p = ancestors ?q @ [p]" using \<open>p \<noteq> []\<close> by (rule ancestors_butlast)
  show ?case
  proof (cases "list_all (not_file f) (ancestors ?q)")
    case True
    with "1.prems"(2) anc have "\<not> not_file f p" by simp
    then obtain c where fp: "f p = Some (File c)"
      by (auto simp: not_file_def split: option.splits fsobj.splits)
    then have "is_dir f ?q" using fs_ok_parent_dir[OF "1.prems"(1), of p] by (auto simp: is_dir_def)
    then have "path_exists f ?q" by (auto simp: is_dir_def path_exists_def)
    then show ?thesis using \<open>p \<noteq> []\<close> fp \<open>is_dir f ?q\<close>
      by (simp add: makedirs.simps [of ok p f] mkdir_def parent_error_is_dir is_dir_def)
  next
    case False
    then have qne: "?q \<noteq> []" by auto
    show ?thesis
    proof (cases "path_exists f ?q")
      case True
      then obtain v where fq: "f ?q = Some v" using qne by (auto simp: path_exists_def)
      have "v \<noteq> Dir"
      proof
        assume "v = Dir"
        then have "list_all (not_file f) (ancestors ?q)"
          using fs_ok_ancestors_dir[OF "1.prems"(1), of ?q] fq
          by (auto simp: list_all_iff not_file_def ancestors_butlast[OF qne])
        with False show False by simp
      qed
      then have fp: "f p = None"
        using fs_ok_parent_dir[OF "1.prems"(1), of p] fq qne by fastforce
      show ?thesis using True \<open>p \<noteq> []\<close> fq \<open>v \<noteq> Dir\<close> fp qne
        by (simp add: makedirs.simps [of ok p f] mkdir_def parent_error_def is_dir_def Let_def)
    next
      case nex: False
      then have fq: "f ?q = None" by (simp add: path_exists_def)
      then have fp: "f p = None"
        using fs_ok_parent_dir[OF "1.prems"(1), of p] qne by fastforce
      from "1" \<open>p \<noteq> []\<close> nex False obtain e where IH: "makedirs ok ?q f = Inl e" by blast
      show ?thesis
        using \<open>p \<noteq> []\<close> nex IH fq fp qne
        by (cases e) (simp_all add: makedirs.simps [of ok p f] mkdir_def parent_error_def is_dir_def Let_def)
    qed
  qed
qed

subsection \<open>Properties of the file-system operations\<close>

text \<open>C5: on a well-formed file system, \<open>os.makedirs(p, exist_ok=True)\<close> succeeds
  exactly when no prefix of \<open>p\<close> is a regular file; it then creates each
  missing prefix as a directory, changes nothing else, and leaves a
  well-formed file system in which every prefix of \<open>p\<close> is a directory.\<close>

theorem makedirs_exist_ok_correct:
  assumes "fs_ok f"
  shows "(case makedirs True p f of
            Inr g \<Rightarrow> list_all (not_file f) (ancestors p) \<and> fs_ok g \<and>
                     list_all (is_dir g) (ancestors p) \<and>
                     (\<forall>q. g q = (if q \<in> set (ancestors p) \<and> f q = None then Some Dir else f q))
          | Inl e \<Rightarrow> \<not> list_all (not_file f) (ancestors p))"
proof (cases "list_all (not_file f) (ancestors p)")
  case True
  have "list_all (is_dir (mk_dirs p f)) (ancestors p)"
    using mk_dirs_is_dir[OF True] by (simp add: list_all_iff)
  then show ?thesis
    using makedirs_exist_ok[OF assms True] fs_ok_mk_dirs[OF assms True] True
    by (simp add: mk_dirs_def)
next
  case False
  then obtain e where "makedirs True p f = Inl e" using makedirs_file_on_path[OF assms] by blast
  then show ?thesis using False by simp
qed

theorem makedirs_exist_ok_correct_witness:
  "fs_ok (Map.empty :: nat fs) \<and>
   (case makedirs True [''a'', ''b''] (Map.empty :: nat fs) of
      Inr g \<Rightarrow> is_dir g [''a''] \<and> is_dir g [''a'', ''b''] | Inl e \<Rightarrow> False)"
proof -
  have h: "fs_ok (Map.empty :: nat fs)" by (simp add: fs_ok_def)
  show ?thesis using makedirs_exist_ok_correct[OF h, of "[''a'', ''b'']"] h
    by (simp add: ancestors_def not_file_def split: sum.splits)
qed

end
