(* ===== verification/Diagrams_Lib.thy ===== *)
theory Diagrams_Lib
  imports Py_OS
begin

text \<open>
  The interface of the \<open>diagrams\<close> library (mingrammer/diagrams) that the script
  calls, modelled from its documented behaviour, and the icon classes the script
  imports (\<open>generate_diagrams.py\<close>, lines 5--44). A \<open>Diagram\<close> is a context
  manager that installs itself as the global diagram, collects nodes, clusters
  and edges, and on exit renders itself: Graphviz writes the dot source to
  \<open>filename\<close>, runs \<open>dot\<close> to write \<open>filename.png\<close>, and the library removes the
  source. A \<open>Cluster\<close> is a context manager that becomes the current cluster
  for the nodes created inside it and attaches itself to its parent on exit.
  \<open>a >> b\<close> dispatches on the Python types of its operands (node, list of
  nodes, edge), as \<open>Node.__rshift__\<close>, \<open>Node.__rrshift__\<close> and
  \<open>Edge.__rshift__\<close> do. Node identifiers are the library's random \<open>uuid4\<close>
  ids; the model draws them from a counter, which gives the same guarantee the
  library relies on: no two nodes or clusters share an id.
\<close>

subsection \<open>Icons\<close>

datatype provider = Azure | AWS | GCP | K8s | OnPrem | Generic

datatype icon =
  \<comment> \<open>diagrams.azure.compute, .database, .storage, .identity, .devops, .security\<close>
    KubernetesServices | ContainerInstances
  | DatabaseForPostgresqlServers | CacheForRedis | CosmosDb
  | StorageAccounts | BlobStorage | ActiveDirectory | Devops | KeyVaults
  \<comment> \<open>diagrams.aws.compute, .database, .storage, .network, .security, .integration\<close>
  | EKS | EC2 | ElasticContainerServiceContainer | RDS | ElasticacheForRedis | S3
  | CloudFront | VPC | VpnGateway | Route53 | ElasticLoadBalancing | WAF | Eventbridge
  \<comment> \<open>diagrams.gcp.compute, .database, .network, .operations\<close>
  | ComputeEngine | GKE | SQL | LoadBalancing | CDN | Monitoring
  \<comment> \<open>diagrams.k8s.compute, .network, .storage\<close>
  | Pod | Deployment | Ingress | Service | PersistentVolume
  \<comment> \<open>diagrams.onprem.gitops, .iac, .ci, .vcs, .monitoring, .security, .client,
      .container, .database, .inmemory, .queue, .network\<close>
  | Argocd | Terraform | Atlantis | GitlabCI | GithubActions | Gitlab | Github
  | Prometheus | Grafana | Datadog | Vault | User | Users | Docker
  | PostgreSQL | MongoDB | Redis | Kafka | Nginx
  \<comment> \<open>diagrams.generic.device, .storage, .compute\<close>
  | Mobile | Tablet | Storage | Rack

fun provider_of :: "icon \<Rightarrow> provider" where
  "provider_of KubernetesServices = Azure"
| "provider_of ContainerInstances = Azure"
| "provider_of DatabaseForPostgresqlServers = Azure"
| "provider_of CacheForRedis = Azure"
| "provider_of CosmosDb = Azure"
| "provider_of StorageAccounts = Azure"
| "provider_of BlobStorage = Azure"
| "provider_of ActiveDirectory = Azure"
| "provider_of Devops = Azure"
| "provider_of KeyVaults = Azure"
| "provider_of EKS = AWS"
| "provider_of EC2 = AWS"
| "provider_of ElasticContainerServiceContainer = AWS"
| "provider_of RDS = AWS"
| "provider_of ElasticacheForRedis = AWS"
| "provider_of S3 = AWS"
| "provider_of CloudFront = AWS"
| "provider_of VPC = AWS"
| "provider_of VpnGateway = AWS"
| "provider_of Route53 = AWS"
| "provider_of ElasticLoadBalancing = AWS"
| "provider_of WAF = AWS"
| "provider_of Eventbridge = AWS"
| "provider_of ComputeEngine = GCP"
| "provider_of GKE = GCP"
| "provider_of SQL = GCP"
| "provider_of LoadBalancing = GCP"
| "provider_of CDN = GCP"
| "provider_of Monitoring = GCP"
| "provider_of Pod = K8s"
| "provider_of Deployment = K8s"
| "provider_of Ingress = K8s"
| "provider_of Service = K8s"
| "provider_of PersistentVolume = K8s"
| "provider_of Mobile = Generic"
| "provider_of Tablet = Generic"
| "provider_of Storage = Generic"
| "provider_of Rack = Generic"
| "provider_of _ = OnPrem"

subsection \<open>Diagram objects\<close>

record dnode =
  n_id :: nat
  n_icon :: icon
  n_label :: string
  n_cluster :: "nat option"

record dcluster =
  c_id :: nat
  c_label :: string
  c_direction :: string
  c_parent :: "nat option"
  c_depth :: nat

record dedge =
  e_src :: nat
  e_dst :: nat
  e_attrs :: attrs

record diagram =
  d_name :: string
  d_filename :: string
  d_direction :: string
  d_curvestyle :: string
  d_outformat :: string
  d_show :: bool
  d_graph_attr :: attrs
  d_node_attr :: attrs
  d_edge_attr :: attrs
  d_nodes :: "dnode list"
  d_clusters :: "dcluster list"
  d_subgraphs :: "nat list"
  d_edges :: "dedge list"

text \<open>An \<open>Edge\<close> object before and while it is connected.\<close>

record edge_obj =
  eo_node :: "nat option"
  eo_forward :: bool
  eo_reverse :: bool
  eo_label :: string
  eo_color :: string
  eo_style :: string

text \<open>The Python values that \<open>>>\<close> takes and returns.\<close>

datatype obj = ONode nat | OList "obj list" | OEdge edge_obj

datatype content = DotSource diagram | Png diagram

record dworld = "content world" +
  ctx :: "diagram option"
  cur_cluster :: "nat option"
  fresh :: nat
  dot_available :: bool

subsection \<open>Validation and attributes\<close>

definition valid_direction :: "string \<Rightarrow> bool" where
  "valid_direction d \<longleftrightarrow> py_upper d \<in> set [''TB'', ''BT'', ''LR'', ''RL'']"

definition valid_curvestyle :: "string \<Rightarrow> bool" where
  "valid_curvestyle c \<longleftrightarrow> py_lower c \<in> set [''ortho'', ''curved'']"

definition valid_outformat :: "string \<Rightarrow> bool" where
  "valid_outformat f \<longleftrightarrow> py_lower f \<in> set [''png'', ''jpg'', ''svg'', ''pdf'', ''dot'']"

definition cluster_bgcolors :: "string list" where
  "cluster_bgcolors = [''#E5F5FD'', ''#EBF3E7'', ''#ECE8F6'', ''#FDF7E3'']"

definition cluster_bgcolor :: "dcluster \<Rightarrow> string" where
  "cluster_bgcolor c = cluster_bgcolors ! (c_depth c mod length cluster_bgcolors)"

definition edge_dir :: "edge_obj \<Rightarrow> string" where
  "edge_dir e =
     (if eo_forward e \<and> eo_reverse e then ''both''
      else if eo_forward e then ''forward''
      else if eo_reverse e then ''back'' else ''none'')"

text \<open>\<open>Edge._default_edge_attrs\<close>, copied into every edge's attributes first.\<close>

definition edge_default_attrs :: attrs where
  "edge_default_attrs = [(''fontcolor'', ''#2D3436''), (''fontname'', ''Sans-Serif''), (''fontsize'', ''13'')]"

text \<open>\<open>Edge.attrs\<close>: the defaults, then \<open>label\<close>, \<open>color\<close> and \<open>style\<close> when given,
  then the direction, \<open>{**self._attrs, "dir": direction}\<close>.\<close>

definition edge_attrs :: "edge_obj \<Rightarrow> attrs" where
  "edge_attrs e = edge_default_attrs @
     (if eo_label e \<noteq> [] then [(''label'', eo_label e)] else []) @
     (if eo_color e \<noteq> [] then [(''color'', eo_color e)] else []) @
     (if eo_style e \<noteq> [] then [(''style'', eo_style e)] else []) @
     [(''dir'', edge_dir e)]"

definition default_filename :: "string \<Rightarrow> string \<Rightarrow> string" where
  "default_filename name filename =
     (if filename \<noteq> [] then filename
      else if name = [] then ''diagrams_image''
      else py_lower (py_join ''_'' (py_split name)))"

definition new_diagram ::
  "string \<Rightarrow> string \<Rightarrow> bool \<Rightarrow> string \<Rightarrow> attrs \<Rightarrow> attrs \<Rightarrow> attrs \<Rightarrow> diagram" where
  "new_diagram name filename show direction ga na ea =
     \<lparr>d_name = name, d_filename = default_filename name filename,
      d_direction = direction, d_curvestyle = ''ortho'', d_outformat = ''png'',
      d_show = show, d_graph_attr = ga, d_node_attr = na, d_edge_attr = ea,
      d_nodes = [], d_clusters = [], d_subgraphs = [], d_edges = []\<rparr>"

definition node_ids :: "diagram \<Rightarrow> nat list" where
  "node_ids d = map n_id (d_nodes d)"

definition cluster_ids :: "diagram \<Rightarrow> nat list" where
  "cluster_ids d = map c_id (d_clusters d)"

definition cluster_depth :: "diagram \<Rightarrow> nat \<Rightarrow> nat" where
  "cluster_depth d p = (case find (\<lambda>c. c_id c = p) (d_clusters d) of
      Some c \<Rightarrow> c_depth c | None \<Rightarrow> 0)"

definition cluster_parent :: "diagram \<Rightarrow> nat \<Rightarrow> nat option" where
  "cluster_parent d p = (case find (\<lambda>c. c_id c = p) (d_clusters d) of
      Some c \<Rightarrow> c_parent c | None \<Rightarrow> None)"

end
