(* ===== verification/Diagrams_Ops.thy ===== *)
theory Diagrams_Ops
  imports Diagrams_Lib
begin

text \<open>
  The operations of the diagrams library as guarded state-monad actions on
  the process state \<open>dworld\<close>: entering and leaving a \<open>Diagram\<close> and a
  \<open>Cluster\<close> (with the \<open>with\<close> statement wrapped around a body), creating a
  node, the \<open>Edge\<close> constructor, \<open>Node.connect\<close>, and \<open>>>\<close>; and the
  Graphviz side of rendering (\<open>save\<close> with its directory creation, \<open>dot\<close>).
\<close>

subsection \<open>State access\<close>

definition take_exc :: "(dworld, pyerror option) state" where
  "take_exc = State (\<lambda>w. (exc w, w\<lparr>exc := None\<rparr>))"

definition restore_exc :: "pyerror option \<Rightarrow> (dworld, unit) state" where
  "restore_exc e = State (\<lambda>w. ((), w\<lparr>exc := e\<rparr>))"

definition has_exc :: "(dworld, bool) state" where
  "has_exc = State (\<lambda>w. (exc w \<noteq> None, w))"

definition get_ctx :: "(dworld, diagram option) state" where
  "get_ctx = State (\<lambda>w. (ctx w, w))"

definition clear_ctx :: "(dworld, unit) state" where
  "clear_ctx = State (\<lambda>w. ((), w\<lparr>ctx := None\<rparr>))"

subsection \<open>Diagram\<close>

text \<open>\<open>Diagram.__init__\<close> followed by \<open>Diagram.__enter__\<close>. \<open>__init__\<close> checks,
  in this order, the direction, the curve style and the output format, and
  raises \<open>ValueError\<close> at the first that is not valid (each compared
  case-insensitively). The script passes a direction and leaves curve style
  and output format at the library defaults \<open>"ortho"\<close> and \<open>"png"\<close>.\<close>

definition diagram_enter ::
  "string \<Rightarrow> string \<Rightarrow> bool \<Rightarrow> string \<Rightarrow> attrs \<Rightarrow> attrs \<Rightarrow> attrs \<Rightarrow> (dworld, bool) state" where
  "diagram_enter name filename show direction ga na ea = guarded False (State (\<lambda>w.
     let d = new_diagram name filename show direction ga na ea in
     if \<not> valid_direction direction
     then (False, w\<lparr>exc := Some (ValueError (''\"'' @ direction @ ''\" is not a valid direction''))\<rparr>)
     else if \<not> valid_curvestyle (d_curvestyle d)
     then (False, w\<lparr>exc := Some (ValueError (''\"'' @ d_curvestyle d @ ''\" is not a valid curvestyle''))\<rparr>)
     else if \<not> valid_outformat (d_outformat d)
     then (False, w\<lparr>exc := Some (ValueError (''\"'' @ d_outformat d @ ''\" is not a valid output format''))\<rparr>)
     else (True, w\<lparr>ctx := Some d\<rparr>)))"

text \<open>\<open>graphviz.tools.mkdirs\<close>, called by \<open>save\<close> before it opens the file:
  \<open>os.makedirs(os.path.dirname(filename), exist_ok=True)\<close>, skipped when the
  name has no directory part.\<close>

definition graphviz_mkdirs :: "string \<Rightarrow> (dworld, unit) state" where
  "graphviz_mkdirs filename =
     (let dirname = py_dirname filename in
      if dirname = [] then State_Monad.return () else os_makedirs dirname True)"

text \<open>Graphviz's \<open>render\<close>: save the dot source to \<open>filename\<close> (creating its
  directory first), then run the \<open>dot\<close> executable, which writes
  \<open>filename.png\<close>.\<close>

definition run_dot :: "(dworld, unit) state" where
  "run_dot = guarded () (State (\<lambda>w.
     if dot_available w then ((), w) else ((), w\<lparr>exc := Some ExecutableNotFound\<rparr>)))"

definition render :: "diagram \<Rightarrow> (dworld, unit) state" where
  "render d = do {
     graphviz_mkdirs (d_filename d);
     write_file (d_filename d) (DotSource d);
     run_dot;
     write_file (d_filename d @ ''.'' @ d_outformat d) (Png d)
   }"

text \<open>
  \<open>Diagram.__exit__\<close>: it runs whether the body raised or not; it renders,
  removes the dot source and clears the global diagram. An exception of the
  body is re-raised afterwards; an exception raised by the exit itself
  replaces it and leaves the global diagram set.
\<close>

definition diagram_exit :: "(dworld, unit) state" where
  "diagram_exit = do {
     saved \<leftarrow> take_exc;
     c \<leftarrow> get_ctx;
     (case c of
        None \<Rightarrow> State_Monad.return ()
      | Some d \<Rightarrow> do { render d; os_remove (d_filename d) });
     failed \<leftarrow> has_exc;
     (if failed then State_Monad.return () else do { clear_ctx; restore_exc saved })
   }"

definition with_Diagram ::
  "string \<Rightarrow> string \<Rightarrow> bool \<Rightarrow> string \<Rightarrow> attrs \<Rightarrow> attrs \<Rightarrow> attrs \<Rightarrow>
   (dworld, 'a) state \<Rightarrow> (dworld, 'a) state" where
  "with_Diagram name filename show direction ga na ea body = do {
     ok \<leftarrow> diagram_enter name filename show direction ga na ea;
     r \<leftarrow> body;
     (if ok then diagram_exit else State_Monad.return ());
     State_Monad.return r
   }"

subsection \<open>Cluster\<close>

text \<open>\<open>Cluster.__init__\<close> (direction check, then the global diagram check,
  then the parent and depth) followed by \<open>Cluster.__enter__\<close>.\<close>

definition cluster_enter :: "string \<Rightarrow> string \<Rightarrow> (dworld, bool) state" where
  "cluster_enter label direction = guarded False (State (\<lambda>w.
     if \<not> valid_direction direction
     then (False, w\<lparr>exc := Some (ValueError (''\"'' @ direction @ ''\" is not a valid direction''))\<rparr>)
     else case ctx w of
       None \<Rightarrow> (False, w\<lparr>exc := Some (EnvironmentError ''Global diagrams context not set up'')\<rparr>)
     | Some d \<Rightarrow>
         (let depth = (case cur_cluster w of None \<Rightarrow> 0 | Some p \<Rightarrow> Suc (cluster_depth d p));
              c = \<lparr>c_id = fresh w, c_label = label, c_direction = direction,
                   c_parent = cur_cluster w, c_depth = depth\<rparr>
          in (True, w\<lparr>ctx := Some (d\<lparr>d_clusters := d_clusters d @ [c]\<rparr>),
                      cur_cluster := Some (fresh w), fresh := Suc (fresh w)\<rparr>))))"

text \<open>\<open>Cluster.__exit__\<close>: attach the cluster's subgraph to its parent (or to
  the diagram) and make the parent the current cluster again.\<close>

definition cluster_exit :: "(dworld, unit) state" where
  "cluster_exit = State (\<lambda>w.
     case (cur_cluster w, ctx w) of
       (Some cid, Some d) \<Rightarrow>
         ((), w\<lparr>ctx := Some (d\<lparr>d_subgraphs := d_subgraphs d @ [cid]\<rparr>),
                cur_cluster := cluster_parent d cid\<rparr>)
     | _ \<Rightarrow> ((), w))"

definition with_Cluster :: "string \<Rightarrow> (dworld, 'a) state \<Rightarrow> (dworld, 'a) state" where
  "with_Cluster label body = do {
     ok \<leftarrow> cluster_enter label ''LR'';
     r \<leftarrow> body;
     (if ok then cluster_exit else State_Monad.return ());
     State_Monad.return r
   }"

subsection \<open>Nodes and edges\<close>

text \<open>\<open>Node.__init__\<close> for an icon class: a fresh id, placed in the current
  cluster, or in the diagram itself outside any cluster.\<close>

definition Node :: "icon \<Rightarrow> string \<Rightarrow> (dworld, obj) state" where
  "Node i label = guarded (ONode 0) (State (\<lambda>w.
     case ctx w of
       None \<Rightarrow> (ONode 0, w\<lparr>exc := Some (EnvironmentError ''Global diagrams context not set up'')\<rparr>)
     | Some d \<Rightarrow>
         (ONode (fresh w),
          w\<lparr>ctx := Some (d\<lparr>d_nodes := d_nodes d @
                [\<lparr>n_id = fresh w, n_icon = i, n_label = label, n_cluster = cur_cluster w\<rparr>]\<rparr>),
            fresh := Suc (fresh w)\<rparr>)))"

text \<open>\<open>Edge(label=..., color=..., style=...)\<close>, not yet attached to a node.\<close>

definition Edge :: "string \<Rightarrow> string \<Rightarrow> string \<Rightarrow> obj" where
  "Edge label color style =
     OEdge \<lparr>eo_node = None, eo_forward = False, eo_reverse = False,
            eo_label = label, eo_color = color, eo_style = style\<rparr>"

text \<open>\<open>Edge(self, forward=True)\<close>, the edge \<open>Node.__rshift__\<close> creates.\<close>

definition node_edge :: "nat \<Rightarrow> edge_obj" where
  "node_edge a = \<lparr>eo_node = Some a, eo_forward = True, eo_reverse = False,
                  eo_label = [], eo_color = [], eo_style = []\<rparr>"

text \<open>
  \<open>Node.connect\<close> and \<open>Diagram.connect\<close>: the edge goes to the diagram the
  source node was created in (the current one, when the node is one of its
  nodes; an older, already rendered one otherwise, where it has no visible
  effect). A target that is not a node has no \<open>nodeid\<close>.
\<close>

definition connect :: "nat \<Rightarrow> obj \<Rightarrow> edge_obj \<Rightarrow> (dworld, unit) state" where
  "connect a dst e = guarded () (State (\<lambda>w.
     case dst of
       ONode b \<Rightarrow>
         (case ctx w of
            Some d \<Rightarrow>
              if a \<in> set (node_ids d)
              then ((), w\<lparr>ctx := Some (d\<lparr>d_edges := d_edges d @
                        [\<lparr>e_src = a, e_dst = b, e_attrs = edge_attrs e\<rparr>]\<rparr>)\<rparr>)
              else ((), w)
          | None \<Rightarrow> ((), w))
     | _ \<Rightarrow> ((), w\<lparr>exc := Some AttributeError\<rparr>)))"

text \<open>One element of \<open>[...] >> node\<close> (\<open>Node.__rrshift__\<close>).\<close>

fun rrshift_elem :: "obj \<Rightarrow> obj \<Rightarrow> (dworld, unit) state" where
  "rrshift_elem (ONode a) b = connect a b (node_edge a)"
| "rrshift_elem (OEdge e) b =
     (case eo_node e of
        Some a \<Rightarrow> connect a b (e\<lparr>eo_forward := True\<rparr>)
      | None \<Rightarrow> State_Monad.return ())"
| "rrshift_elem (OList _) b = py_raise AttributeError"

text \<open>\<open>a >> b\<close>, by the types of the operands.\<close>

fun rshift :: "obj \<Rightarrow> obj \<Rightarrow> (dworld, obj) state" where
  "rshift (ONode a) (ONode b) = do {
     connect a (ONode b) (node_edge a); State_Monad.return (ONode b) }"
| "rshift (ONode a) (OList bs) = do {
     state_iter (\<lambda>b. connect a b (node_edge a)) bs; State_Monad.return (OList bs) }"
| "rshift (ONode a) (OEdge e) =
     State_Monad.return (OEdge (e\<lparr>eo_forward := True, eo_node := Some a\<rparr>))"
| "rshift (OList xs) (ONode b) = do {
     state_iter (\<lambda>x. rrshift_elem x (ONode b)) xs; State_Monad.return (ONode b) }"
| "rshift (OList xs) (OList ys) = do {
     py_raise TypeError; State_Monad.return (OList ys) }"
| "rshift (OList xs) (OEdge e) = do {
     py_raise NotModelled; State_Monad.return (OEdge e) }"
| "rshift (OEdge e) (ONode b) =
     (case eo_node e of
        Some a \<Rightarrow> do { connect a (ONode b) (e\<lparr>eo_forward := True\<rparr>); State_Monad.return (ONode b) }
      | None \<Rightarrow> State_Monad.return (OEdge (e\<lparr>eo_forward := True, eo_node := Some b\<rparr>)))"
| "rshift (OEdge e) (OList bs) =
     (case eo_node e of
        Some a \<Rightarrow> do {
          state_iter (\<lambda>b. connect a b (e\<lparr>eo_forward := True\<rparr>)) bs;
          State_Monad.return (OList bs) }
      | None \<Rightarrow> do { py_raise AttributeError; State_Monad.return (OList bs) })"
| "rshift (OEdge e) (OEdge e2) =
     State_Monad.return (OEdge (e\<lparr>eo_forward := True, eo_label := eo_label e2,
                                  eo_color := eo_color e2, eo_style := eo_style e2\<rparr>))"

declare take_exc_def [run_simps] restore_exc_def [run_simps] has_exc_def [run_simps]
  get_ctx_def [run_simps] clear_ctx_def [run_simps] diagram_enter_def [run_simps]
  run_dot_def [run_simps] render_def [run_simps] diagram_exit_def [run_simps]
  with_Diagram_def [run_simps] cluster_enter_def [run_simps] cluster_exit_def [run_simps]
  with_Cluster_def [run_simps] Node_def [run_simps] Edge_def [run_simps]
  node_edge_def [run_simps] connect_def [run_simps]
  valid_direction_def [run_simps] py_upper_def [run_simps] upper_char_def [run_simps]
  valid_curvestyle_def [run_simps] valid_outformat_def [run_simps] py_lower_def [run_simps]
  lower_char_def [run_simps]
  new_diagram_def [run_simps] default_filename_def [run_simps] node_ids_def [run_simps]
  cluster_depth_def [run_simps] cluster_parent_def [run_simps] edge_attrs_def [run_simps] edge_default_attrs_def [run_simps]
  edge_dir_def [run_simps]

subsection \<open>Running a whole \<open>with Diagram(...)\<close> block\<close>

text \<open>With a valid direction, entering succeeds: the library defaults for
  curve style and output format pass their checks.\<close>

lemma diagram_enter_ok:
  "exc w = None \<Longrightarrow> valid_direction dir \<Longrightarrow>
   run_state (diagram_enter n fn s dir ga na ea) w = (True, w\<lparr>ctx := Some (new_diagram n fn s dir ga na ea)\<rparr>)"
  by (simp add: diagram_enter_def guarded_def new_diagram_def valid_curvestyle_def
      valid_outformat_def py_lower_def lower_char_def Let_def)

lemma graphviz_mkdirs_makes:
  assumes "exc w = None" "py_dirname fn \<noteq> []" "makedirs True (path_of (py_dirname fn)) (fs w) = Inr g"
  shows "run_state (graphviz_mkdirs fn) w = ((), w\<lparr>fs := g, out := out w @ [Mkdirs (path_of (py_dirname fn))]\<rparr>)"
  using assms by (simp add: graphviz_mkdirs_def Let_def os_makedirs_def fs_op_def guarded_def)

lemma graphviz_mkdirs_run:
  assumes "exc w = None" "py_dirname fn \<noteq> []"
    and "is_dir (fs w) (path_of (py_dirname fn))" "is_dir (fs w) (butlast (path_of (py_dirname fn)))"
  shows "run_state (graphviz_mkdirs fn) w = ((), w\<lparr>out := out w @ [Mkdirs (path_of (py_dirname fn))]\<rparr>)"
  using graphviz_mkdirs_makes[OF assms(1,2) makedirs_existing_dir[OF assms(3,4)]] by simp

text \<open>Leaving a \<open>with Diagram\<close> block with \<open>dot\<close> available: Graphviz
  creates the directory of the file (\<open>g\<close> is the file system after that
  \<open>os.makedirs\<close>), the image is rendered there, the source removed and the
  global diagram cleared; a pending exception of the body is kept.\<close>

lemma diagram_exit_renders:
  assumes "dot_available w" "ctx w = Some D" and fn: "d_filename D = fn" "d_outformat D = ''png''"
    and src: "path_of fn \<noteq> []"
    and dir: "py_dirname fn \<noteq> []" "path_of (py_dirname fn) = butlast (path_of fn)"
    and mk: "makedirs True (butlast (path_of fn)) (fs w) = Inr g"
       "is_dir g (butlast (path_of fn))" "g (path_of fn) \<noteq> Some Dir"
    and png: "path_of (fn @ ''.png'') \<noteq> []"
       "butlast (path_of (fn @ ''.png'')) = butlast (path_of fn)"
       "g (path_of (fn @ ''.png'')) \<noteq> Some Dir"
    and ne: "path_of fn \<noteq> path_of (fn @ ''.png'')"
  shows "run_state diagram_exit w =
    ((), w\<lparr>fs := g(path_of (fn @ ''.png'') \<mapsto> File (Png D), path_of fn := None),
          out := out w @ [Mkdirs (butlast (path_of fn)), Wrote (path_of fn),
                          Wrote (path_of (fn @ ''.png'')), Unlinked (path_of fn)],
          ctx := None\<rparr>)"
proof -
  let ?src = "path_of fn" and ?png = "path_of (fn @ ''.png'')"
  have m: "run_state (graphviz_mkdirs fn) w' =
      ((), w'\<lparr>fs := g, out := out w' @ [Mkdirs (butlast ?src)]\<rparr>)"
    if "exc w' = None" "fs w' = fs w" for w' :: dworld
    using graphviz_mkdirs_makes[of w' fn g] that dir mk by simp
  have d1: "is_dir (g(?src \<mapsto> File (DotSource D))) (butlast ?png)"
    using mk png butlast_neq_self[of ?src] src by (simp add: is_dir_upd_other)
  have d2: "is_dir (g(?src \<mapsto> File (DotSource D), ?png \<mapsto> File (Png D))) (butlast ?src)"
    using mk src png butlast_neq_self[of ?src] butlast_neq_self[of ?png]
    by (simp add: is_dir_upd_other)
  show ?thesis
    using assms d1 d2
    by (simp add: diagram_exit_def guarded_def render_def m
        run_dot_def write_file_def os_remove_def fs_op_def take_exc_def get_ctx_def has_exc_def
        clear_ctx_def restore_exc_def open_write_ok remove_ok fun_upd_twist)
qed

text \<open>The same when the directory exists already: nothing is created.\<close>

lemma diagram_exit_rendered:
  assumes "dot_available w" "ctx w = Some D" and fn: "d_filename D = fn" "d_outformat D = ''png''"
    and src: "path_of fn \<noteq> []" "is_dir (fs w) (butlast (path_of fn))"
       "fs w (path_of fn) \<noteq> Some Dir"
    and dir: "py_dirname fn \<noteq> []" "path_of (py_dirname fn) = butlast (path_of fn)"
       "is_dir (fs w) (butlast (butlast (path_of fn)))"
    and png: "path_of (fn @ ''.png'') \<noteq> []"
       "butlast (path_of (fn @ ''.png'')) = butlast (path_of fn)"
       "fs w (path_of (fn @ ''.png'')) \<noteq> Some Dir"
    and ne: "path_of fn \<noteq> path_of (fn @ ''.png'')"
  shows "run_state diagram_exit w =
    ((), w\<lparr>fs := (fs w)(path_of (fn @ ''.png'') \<mapsto> File (Png D), path_of fn := None),
          out := out w @ [Mkdirs (butlast (path_of fn)), Wrote (path_of fn),
                          Wrote (path_of (fn @ ''.png'')), Unlinked (path_of fn)],
          ctx := None\<rparr>)"
  using assms makedirs_existing_dir[OF src(2) dir(3)] by (intro diagram_exit_renders) simp_all

text \<open>
  A whole \<open>with Diagram\<close> block whose body only adds to the diagram and
  draws fresh ids: Graphviz creates the file's directory, writes
  \<open>filename\<close> (the dot source) and \<open>filename.png\<close>, the source is removed
  again, the global diagram is cleared, and the image file holds the
  diagram the body built. This is what every diagram function of the script
  relies on.
\<close>

lemma with_Diagram_renders:
  assumes "exc w = None" "valid_direction dir" "dot_available w"
    and body: "run_state body (w\<lparr>ctx := Some (new_diagram n fn s dir ga na ea)\<rparr>) =
               (r, w\<lparr>ctx := Some D, fresh := k\<rparr>)"
    and "d_filename D = fn" "d_outformat D = ''png''"
    and src: "path_of fn \<noteq> []"
    and dir: "py_dirname fn \<noteq> []" "path_of (py_dirname fn) = butlast (path_of fn)"
    and mk: "makedirs True (butlast (path_of fn)) (fs w) = Inr g"
       "is_dir g (butlast (path_of fn))" "g (path_of fn) \<noteq> Some Dir"
    and png: "path_of (fn @ ''.png'') \<noteq> []"
       "butlast (path_of (fn @ ''.png'')) = butlast (path_of fn)"
       "g (path_of (fn @ ''.png'')) \<noteq> Some Dir"
    and ne: "path_of fn \<noteq> path_of (fn @ ''.png'')"
  shows "run_state (with_Diagram n fn s dir ga na ea body) w =
    (r, w\<lparr>fs := g(path_of (fn @ ''.png'') \<mapsto> File (Png D), path_of fn := None),
          out := out w @ [Mkdirs (butlast (path_of fn)), Wrote (path_of fn),
                          Wrote (path_of (fn @ ''.png'')), Unlinked (path_of fn)],
          ctx := None, fresh := k\<rparr>)"
proof -
  have "run_state diagram_exit (w\<lparr>ctx := Some D, fresh := k\<rparr>) =
    ((), w\<lparr>fs := g(path_of (fn @ ''.png'') \<mapsto> File (Png D), path_of fn := None),
          out := out w @ [Mkdirs (butlast (path_of fn)), Wrote (path_of fn),
                          Wrote (path_of (fn @ ''.png'')), Unlinked (path_of fn)],
          ctx := None, fresh := k\<rparr>)"
    using diagram_exit_renders[of "w\<lparr>ctx := Some D, fresh := k\<rparr>" D fn g] assms by simp
  then show ?thesis
    using assms by (simp add: with_Diagram_def diagram_enter_ok)
qed

lemma with_Diagram_run:
  assumes "exc w = None" "valid_direction dir" "dot_available w"
    and body: "run_state body (w\<lparr>ctx := Some (new_diagram n fn s dir ga na ea)\<rparr>) =
               (r, w\<lparr>ctx := Some D, fresh := k\<rparr>)"
    and "d_filename D = fn" "d_outformat D = ''png''"
    and src: "path_of fn \<noteq> []" "is_dir (fs w) (butlast (path_of fn))"
       "fs w (path_of fn) \<noteq> Some Dir"
    and dir: "py_dirname fn \<noteq> []" "path_of (py_dirname fn) = butlast (path_of fn)"
       "is_dir (fs w) (butlast (butlast (path_of fn)))"
    and png: "path_of (fn @ ''.png'') \<noteq> []"
       "butlast (path_of (fn @ ''.png'')) = butlast (path_of fn)"
       "fs w (path_of (fn @ ''.png'')) \<noteq> Some Dir"
    and ne: "path_of fn \<noteq> path_of (fn @ ''.png'')"
  shows "run_state (with_Diagram n fn s dir ga na ea body) w =
    (r, w\<lparr>fs := (fs w)(path_of (fn @ ''.png'') \<mapsto> File (Png D), path_of fn := None),
          out := out w @ [Mkdirs (butlast (path_of fn)), Wrote (path_of fn),
                          Wrote (path_of (fn @ ''.png'')), Unlinked (path_of fn)],
          ctx := None, fresh := k\<rparr>)"
  using assms makedirs_existing_dir[OF src(2) dir(3)] by (intro with_Diagram_renders) simp_all

text \<open>When \<open>dot\<close> is missing, the block writes the dot source, raises
  \<open>ExecutableNotFound\<close> from the exit, and leaves the global diagram set.\<close>

lemma with_Diagram_no_dot:
  assumes "exc w = None" "valid_direction dir" "\<not> dot_available w"
    and body: "run_state body (w\<lparr>ctx := Some (new_diagram n fn s dir ga na ea)\<rparr>) =
               (r, w\<lparr>ctx := Some D, fresh := k\<rparr>)"
    and "d_filename D = fn"
    and src: "path_of fn \<noteq> []" "is_dir (fs w) (butlast (path_of fn))"
       "fs w (path_of fn) \<noteq> Some Dir"
    and dir: "py_dirname fn \<noteq> []" "path_of (py_dirname fn) = butlast (path_of fn)"
       "is_dir (fs w) (butlast (butlast (path_of fn)))"
  shows "run_state (with_Diagram n fn s dir ga na ea body) w =
    (r, w\<lparr>fs := (fs w)(path_of fn \<mapsto> File (DotSource D)),
          out := out w @ [Mkdirs (butlast (path_of fn)), Wrote (path_of fn)],
          exc := Some ExecutableNotFound, ctx := Some D, fresh := k\<rparr>)"
  using assms
  by (simp add: with_Diagram_def diagram_enter_ok diagram_exit_def guarded_def render_def
      graphviz_mkdirs_run run_dot_def write_file_def os_remove_def fs_op_def take_exc_def get_ctx_def has_exc_def
      clear_ctx_def restore_exc_def open_write_ok)

subsection \<open>Nothing runs once an exception is pending\<close>

text \<open>Under a pending exception every operation leaves the state unchanged;
  \<open>inert_simps\<close> carries this through a whole body with \<open>simp only\<close>, without
  unfolding the operations.\<close>

lemma snd_run_bind:
  "snd (run_state (State_Monad.bind m f) w) = snd (run_state (f (fst (run_state m w))) (snd (run_state m w)))"
  by (simp split: prod.split)

lemma guarded_inert: "exc w \<noteq> None \<Longrightarrow> run_state (guarded d m) w = (d, w)"
  by (auto simp: guarded_def)

lemma Node_inert: "exc w \<noteq> None \<Longrightarrow> snd (run_state (Node i l) w) = w"
  by (simp add: Node_def guarded_inert)

lemma py_print_inert: "exc w \<noteq> None \<Longrightarrow> run_state (py_print s) w = ((), w)"
  by (simp add: py_print_def guarded_inert)

lemma state_iter_inert:
  "(\<And>x. snd (run_state (f x) w) = w) \<Longrightarrow> snd (run_state (state_iter f xs) w) = w"
  by (induction xs) (simp_all only: run_state_iter_Nil run_state_iter_Cons snd_conv)

lemma connect_inert: "exc w \<noteq> None \<Longrightarrow> snd (run_state (connect a b e) w) = w"
  by (simp add: connect_def guarded_inert)

lemma py_raise_inert: "exc w \<noteq> None \<Longrightarrow> snd (run_state (py_raise e) w) = w"
  by (simp add: py_raise_def guarded_inert)

lemma rrshift_elem_inert: "exc w \<noteq> None \<Longrightarrow> snd (run_state (rrshift_elem x b) w) = w"
  by (cases x) (simp_all add: connect_inert py_raise_inert split: option.split)

lemma rshift_inert: "exc w \<noteq> None \<Longrightarrow> snd (run_state (rshift x y) w) = w"
  by (cases x; cases y)
     (simp_all add: connect_inert py_raise_inert rrshift_elem_inert state_iter_inert
       snd_run_then_return split: option.split)

lemma with_Cluster_inert:
  "exc w \<noteq> None \<Longrightarrow> snd (run_state body w) = w \<Longrightarrow> snd (run_state (with_Cluster l body) w) = w"
  by (simp add: with_Cluster_def cluster_enter_def guarded_inert snd_run_bind)

lemma with_Diagram_inert:
  "exc w \<noteq> None \<Longrightarrow> snd (run_state body w) = w \<Longrightarrow>
   snd (run_state (with_Diagram n fn s dir ga na ea body) w) = w"
  by (simp add: with_Diagram_def diagram_enter_def guarded_inert snd_run_bind)

lemmas inert_simps = snd_run_bind snd_conv run_state_return Node_inert rshift_inert with_Cluster_inert
  with_Diagram_inert prod.case_eq_if not_False_eq_True

lemma unit_run: "snd (run_state m w) = w \<Longrightarrow> run_state (m :: ('s, unit) state) w = ((), w)"
  by (metis old.unit.exhaust prod.collapse)

end
