(* ===== verification/Scene.thy ===== *)
theory Scene
  imports Diagrams_Ops
begin

text \<open>
  What a rendered diagram shows, read off the \<open>diagram\<close> record that the
  image file holds: its edges as pairs of node ids, the well-formedness of its node
  and cluster tables, whether every edge joins two of its own nodes (Graphviz
  would otherwise draw an unlabelled implicit node), whether its edge graph
  is acyclic (checked by a topological sort; soundness against HOL's
  \<open>acyclic\<close> is proved here), whether its clusters have distinct Graphviz names
  (\<open>"cluster_" + label\<close>; Graphviz merges subgraphs of the same name), and
  which public clouds its icons come from. \<open>drawn\<close> is the diagram a body
  builds from an empty diagram whose first fresh id is \<open>k\<close>.
\<close>

subsection \<open>The diagram a body draws\<close>

definition template :: "diagram \<Rightarrow> nat \<Rightarrow> dworld" where
  "template d0 k = \<lparr>fs = Map.empty, out = [], exc = None, ctx = Some d0, cur_cluster = None,
     fresh = k, dot_available = True\<rparr>"

definition drawn :: "diagram \<Rightarrow> (dworld, 'a) state \<Rightarrow> nat \<Rightarrow> diagram" where
  "drawn d0 body k =
     (case ctx (snd (run_state body (template d0 k))) of Some d \<Rightarrow> d | None \<Rightarrow> d0)"

subsection \<open>Reading a diagram\<close>

definition edge_pairs :: "diagram \<Rightarrow> (nat \<times> nat) list" where
  "edge_pairs d = map (\<lambda>e. (e_src e, e_dst e)) (d_edges d)"

definition plain :: attrs where
  "plain = edge_default_attrs @ [(''dir'', ''forward'')]"

definition edges_closed :: "diagram \<Rightarrow> bool" where
  "edges_closed d =
     list_all (\<lambda>e. e_src e \<in> set (node_ids d) \<and> e_dst e \<in> set (node_ids d)) (d_edges d)"

fun parents_before :: "nat list \<Rightarrow> dcluster list \<Rightarrow> bool" where
  "parents_before seen [] = True"
| "parents_before seen (c # cs) =
     ((case c_parent c of None \<Rightarrow> True | Some p \<Rightarrow> p \<in> set seen) \<and>
      parents_before (c_id c # seen) cs)"

definition well_formed :: "diagram \<Rightarrow> bool" where
  "well_formed d \<longleftrightarrow>
     distinct (node_ids d @ cluster_ids d) \<and>
     list_all (\<lambda>n. case n_cluster n of None \<Rightarrow> True | Some c \<Rightarrow> c \<in> set (cluster_ids d))
       (d_nodes d) \<and>
     parents_before [] (d_clusters d) \<and>
     list_all (\<lambda>e. e_src e \<in> set (node_ids d)) (d_edges d)"

definition clusters_attached :: "diagram \<Rightarrow> bool" where
  "clusters_attached d \<longleftrightarrow>
     distinct (d_subgraphs d) \<and> length (d_subgraphs d) = length (cluster_ids d) \<and>
     list_all (\<lambda>c. c \<in> set (d_subgraphs d)) (cluster_ids d)"

definition cluster_names_distinct :: "diagram \<Rightarrow> bool" where
  "cluster_names_distinct d \<longleftrightarrow> distinct (map c_label (d_clusters d))"

definition clouds :: "diagram \<Rightarrow> provider list" where
  "clouds d = remdups (filter (\<lambda>p. p \<in> set [Azure, AWS, GCP])
                                (map (\<lambda>n. provider_of (n_icon n)) (d_nodes d)))"

subsection \<open>A topological sort\<close>

definition has_pred :: "'a list \<Rightarrow> ('a \<times> 'a) list \<Rightarrow> 'a \<Rightarrow> bool" where
  "has_pred vs es v = list_ex (\<lambda>(a, b). b = v \<and> a \<in> set vs) es"

definition within :: "'a set \<Rightarrow> ('a \<times> 'a) list \<Rightarrow> ('a \<times> 'a) set" where
  "within V es = {(a, b). (a, b) \<in> set es \<and> a \<in> V \<and> b \<in> V}"

text \<open>Kahn's algorithm, one layer at a time: take every vertex with no
  predecessor among the remaining ones; fail when there is none.\<close>

function topo :: "'a list \<Rightarrow> ('a \<times> 'a) list \<Rightarrow> 'a list option" where
  "topo vs es =
     (if vs = [] then Some []
      else let srcs = filter (\<lambda>v. \<not> has_pred vs es v) vs in
           if srcs = [] then None
           else map_option (\<lambda>ord. srcs @ ord) (topo (filter (\<lambda>v. v \<notin> set srcs) vs) es))"
  by pat_completeness auto
termination
proof (relation "measure (\<lambda>(vs, es). length vs)")
  fix vs :: "'a list" and es :: "('a \<times> 'a) list" and srcs
  assume "vs \<noteq> []" and srcs: "srcs = filter (\<lambda>v. \<not> has_pred vs es v) vs" and "srcs \<noteq> []"
  from \<open>srcs \<noteq> []\<close> have h: "hd srcs \<in> set srcs" by (rule hd_in_set)
  with srcs have "hd srcs \<in> set vs" by (metis filter_is_subset subsetD)
  then have "length (filter (\<lambda>v. v \<notin> set srcs) vs) < length vs"
    using length_filter_less[of "hd srcs" vs "\<lambda>v. v \<notin> set srcs"] h by simp
  then show "((filter (\<lambda>v. v \<notin> set srcs) vs, es), vs, es) \<in> measure (\<lambda>(vs, es). length vs)"
    by simp
qed simp

declare topo.simps [simp del]

definition dag :: "diagram \<Rightarrow> bool" where
  "dag d \<longleftrightarrow> topo (node_ids d) (edge_pairs d) \<noteq> None"

definition scene_ok :: "diagram \<Rightarrow> bool" where
  "scene_ok d \<longleftrightarrow> well_formed d \<and> edges_closed d \<and> dag d \<and> clusters_attached d \<and>
     cluster_names_distinct d \<and> length (clouds d) \<le> 1"

subsection \<open>Soundness of the acyclicity check\<close>

lemma within_trancl_avoids:
  assumes tr: "(x, y) \<in> (within (set vs) es)\<^sup>+"
    and no_in: "\<And>a b. (a, b) \<in> within (set vs) es \<Longrightarrow> b \<notin> S"
  shows "y \<notin> S \<and> (x \<notin> S \<longrightarrow> (x, y) \<in> (within (set vs - S) es)\<^sup>+)"
  using tr
proof (induction rule: trancl_induct)
  case (base y)
  with no_in show ?case by (auto simp: within_def)
next
  case (step y z)
  then have "z \<notin> S" using no_in by blast
  moreover have "(y, z) \<in> within (set vs - S) es"
    using step \<open>z \<notin> S\<close> by (auto simp: within_def)
  ultimately show ?case using step by (meson trancl.trancl_into_trancl)
qed

lemma topo_acyclic:
  "topo vs es = Some ord \<Longrightarrow> acyclic (within (set vs) es)"
proof (induction vs es arbitrary: ord rule: topo.induct)
  case (1 vs es)
  show ?case
  proof (cases "vs = []")
    case True
    then show ?thesis by (simp add: within_def acyclic_def)
  next
    case False
    define srcs where "srcs = filter (\<lambda>v. \<not> has_pred vs es v) vs"
    define vs' where "vs' = filter (\<lambda>v. v \<notin> set srcs) vs"
    from "1.prems" False obtain ord' where ne: "srcs \<noteq> []" and rec: "topo vs' es = Some ord'"
      by (subst (asm) topo.simps) (auto simp: srcs_def vs'_def Let_def split: if_splits)
    have IH: "acyclic (within (set vs') es)"
      using "1.IH"[OF False srcs_def ne] rec by (simp add: vs'_def)
    have set_vs': "set vs' = set vs - set srcs"
      by (auto simp: vs'_def)
    have no_in: "b \<notin> set srcs" if "(a, b) \<in> within (set vs) es" for a b
      using that by (auto simp: within_def srcs_def has_pred_def list_ex_iff)
    show ?thesis
    proof (rule acyclicI)
      show "\<forall>x. (x, x) \<notin> (within (set vs) es)\<^sup>+"
      proof (intro allI notI)
        fix x
        assume "(x, x) \<in> (within (set vs) es)\<^sup>+"
        from within_trancl_avoids[OF this no_in]
        have "(x, x) \<in> (within (set vs') es)\<^sup>+" by (simp add: set_vs')
        with IH show False by (simp add: acyclic_def)
      qed
    qed
  qed
qed

lemma within_closed:
  "edges_closed d \<Longrightarrow> within (set (node_ids d)) (edge_pairs d) = set (edge_pairs d)"
  by (auto simp: within_def edges_closed_def edge_pairs_def list_all_iff)

lemma dag_acyclic: "edges_closed d \<Longrightarrow> dag d \<Longrightarrow> acyclic (set (edge_pairs d))"
  using topo_acyclic within_closed unfolding dag_def by fastforce

lemma scene_ok_acyclic: "scene_ok d \<Longrightarrow> acyclic (set (edge_pairs d))"
  by (simp add: scene_ok_def dag_acyclic)

text \<open>The facts that evaluate a drawn diagram and its checks.\<close>

lemmas image_simps = run_simps drawn_def template_def scene_ok_def well_formed_def
  edges_closed_def dag_def clusters_attached_def cluster_names_distinct_def clouds_def
  cluster_ids_def edge_pairs_def topo.simps has_pred_def Let_def

end
