(* ===== verification/Script_Module.thy ===== *)
theory Script_Module
  imports Scene
begin

text \<open>
  The module-level statements of \<open>generate_diagrams.py\<close> (lines 48--66): the
  output directory, its creation at import time with \<open>os.makedirs(...,
  exist_ok=True)\<close>, and the three attribute dictionaries the diagram functions
  pass to \<open>Diagram\<close>. Then the vocabulary the diagram theories share: the
  state a diagram function may start from (\<open>ready_for\<close>) and the state it
  leaves (\<open>rendered\<close>).
\<close>

definition OUTPUT_DIR :: string where
  "OUTPUT_DIR = ''/Users/arbab.khalil/personal/public-docs/upwork-portfolios/diagrams/images''"

definition graph_attr :: attrs where
  "graph_attr = [(''fontsize'', ''24''), (''bgcolor'', ''white''), (''pad'', ''0.5''),
                 (''splines'', ''spline'')]"

definition node_attr :: attrs where
  "node_attr = [(''fontsize'', ''12'')]"

definition edge_attr :: attrs where
  "edge_attr = [(''fontsize'', ''10'')]"

text \<open>Importing the module: line 50, the only statement with an effect.\<close>

definition module_init :: "(dworld, unit) state" where
  "module_init = os_makedirs OUTPUT_DIR True"

definition out_dir :: path where
  "out_dir = [''Users'', ''arbab.khalil'', ''personal'', ''public-docs'', ''upwork-portfolios'',
              ''diagrams'', ''images'']"

text \<open>A diagram function writing \<open>OUTPUT_DIR/name\<close> can run: no exception is
  pending, no cluster is open, Graphviz is installed, the output directory
  exists and neither target path is a directory.\<close>

definition ready_for :: "string \<Rightarrow> dworld \<Rightarrow> bool" where
  "ready_for name w \<longleftrightarrow> exc w = None \<and> cur_cluster w = None \<and> dot_available w \<and>
     is_dir (fs w) (butlast out_dir) \<and> is_dir (fs w) out_dir \<and> fs w (out_dir @ [name]) \<noteq> Some Dir \<and>
     fs w (out_dir @ [name @ ''.png'']) \<noteq> Some Dir"

text \<open>The state after the function: the image written, the source removed.\<close>

definition rendered :: "string \<Rightarrow> diagram \<Rightarrow> nat \<Rightarrow> dworld \<Rightarrow> dworld" where
  "rendered name D k w =
     w\<lparr>fs := (fs w)(out_dir @ [name @ ''.png''] \<mapsto> File (Png D), out_dir @ [name] := None),
       out := out w @ [Mkdirs out_dir, Wrote (out_dir @ [name]), Wrote (out_dir @ [name @ ''.png'']),
                       Unlinked (out_dir @ [name])],
       ctx := None, fresh := k\<rparr>"

lemma butlast_out_dir_ne: "butlast out_dir \<noteq> out_dir @ [x]"
  by (simp add: out_dir_def)

lemma path_of_OUTPUT_DIR: "path_of OUTPUT_DIR = out_dir"
  by (simp add: path_of_def OUTPUT_DIR_def out_dir_def)

lemma path_of_output:
  "name \<noteq> [] \<Longrightarrow> CHR ''/'' \<notin> set name \<Longrightarrow> path_of (OUTPUT_DIR @ CHR ''/'' # name) = out_dir @ [name]"
  by (simp add: path_of_append_name path_of_OUTPUT_DIR)

lemma script_diagram_run:
  assumes ready: "ready_for name w" and name: "name \<noteq> []" "CHR ''/'' \<notin> set name"
    and dir: "valid_direction dir"
    and body: "run_state body (w\<lparr>ctx := Some (new_diagram n (OUTPUT_DIR @ CHR ''/'' # name) False dir ga na ea)\<rparr>) =
               ((), w\<lparr>ctx := Some D, fresh := k\<rparr>)"
    and D: "d_filename D = OUTPUT_DIR @ CHR ''/'' # name" "d_outformat D = ''png''"
  shows "run_state (with_Diagram n (OUTPUT_DIR @ CHR ''/'' # name) False dir ga na ea body) w =
         ((), rendered name D k w)"
proof -
  have src: "path_of (OUTPUT_DIR @ CHR ''/'' # name) = out_dir @ [name]"
    using name by (rule path_of_output)
  have png: "path_of ((OUTPUT_DIR @ CHR ''/'' # name) @ ''.png'') = out_dir @ [name @ ''.png'']"
    using path_of_output[of "name @ ''.png''"] name by simp
  have dn: "py_dirname (OUTPUT_DIR @ CHR ''/'' # name) \<noteq> []"
    "path_of (py_dirname (OUTPUT_DIR @ CHR ''/'' # name)) = out_dir"
    using py_dirname_append[OF name(2), of OUTPUT_DIR] by (simp_all add: path_of_OUTPUT_DIR)
  show ?thesis
    using ready dir body D src png dn
    by (subst with_Diagram_run) (auto simp: ready_for_def rendered_def)
qed

text \<open>A diagram function run while \<open>OUTPUT_DIR\<close> may still be missing:
  Graphviz's \<open>save\<close> creates it (and its missing ancestors) before writing,
  so the function behaves as on the file system where the directory exists.\<close>

lemma script_diagram_creates:
  assumes ok: "fs_ok (fs w)" "list_all (not_file (fs w)) (ancestors out_dir)"
    and ready: "ready_for name (w\<lparr>fs := mk_dirs out_dir (fs w)\<rparr>)"
    and name: "name \<noteq> []" "CHR ''/'' \<notin> set name"
    and dir: "valid_direction dir"
    and body: "run_state body (w\<lparr>ctx := Some (new_diagram n (OUTPUT_DIR @ CHR ''/'' # name) False dir ga na ea)\<rparr>) =
               ((), w\<lparr>ctx := Some D, fresh := k\<rparr>)"
    and D: "d_filename D = OUTPUT_DIR @ CHR ''/'' # name" "d_outformat D = ''png''"
  shows "run_state (with_Diagram n (OUTPUT_DIR @ CHR ''/'' # name) False dir ga na ea body) w =
         ((), rendered name D k (w\<lparr>fs := mk_dirs out_dir (fs w)\<rparr>))"
proof -
  have src: "path_of (OUTPUT_DIR @ CHR ''/'' # name) = out_dir @ [name]"
    using name by (rule path_of_output)
  have png: "path_of ((OUTPUT_DIR @ CHR ''/'' # name) @ ''.png'') = out_dir @ [name @ ''.png'']"
    using path_of_output[of "name @ ''.png''"] name by simp
  have dn: "py_dirname (OUTPUT_DIR @ CHR ''/'' # name) \<noteq> []"
    "path_of (py_dirname (OUTPUT_DIR @ CHR ''/'' # name)) = out_dir"
    using py_dirname_append[OF name(2), of OUTPUT_DIR] by (simp_all add: path_of_OUTPUT_DIR)
  have mk: "makedirs True out_dir (fs w) = Inr (mk_dirs out_dir (fs w))"
    using ok by (rule makedirs_exist_ok)
  show ?thesis
    using ready dir body D src png dn mk
    by (subst with_Diagram_renders[where g = "mk_dirs out_dir (fs w)"])
       (auto simp: ready_for_def rendered_def)
qed

text \<open>The same function when \<open>dot\<close> is missing: the dot source is written
  and \<open>ExecutableNotFound\<close> is raised with the global diagram still set.\<close>

lemma script_diagram_no_dot:
  assumes ready: "ready_for name (w\<lparr>dot_available := True\<rparr>)" "\<not> dot_available w"
    and name: "name \<noteq> []" "CHR ''/'' \<notin> set name"
    and dir: "valid_direction dir"
    and body: "run_state body (w\<lparr>ctx := Some (new_diagram n (OUTPUT_DIR @ CHR ''/'' # name) False dir ga na ea)\<rparr>) =
               ((), w\<lparr>ctx := Some D, fresh := k\<rparr>)"
    and D: "d_filename D = OUTPUT_DIR @ CHR ''/'' # name"
  shows "run_state (with_Diagram n (OUTPUT_DIR @ CHR ''/'' # name) False dir ga na ea body) w =
         ((), w\<lparr>fs := (fs w)(out_dir @ [name] \<mapsto> File (DotSource D)),
               out := out w @ [Mkdirs out_dir, Wrote (out_dir @ [name])],
               exc := Some ExecutableNotFound, ctx := Some D, fresh := k\<rparr>)"
proof -
  have src: "path_of (OUTPUT_DIR @ CHR ''/'' # name) = out_dir @ [name]"
    using name by (rule path_of_output)
  have dn: "py_dirname (OUTPUT_DIR @ CHR ''/'' # name) \<noteq> []"
    "path_of (py_dirname (OUTPUT_DIR @ CHR ''/'' # name)) = out_dir"
    using py_dirname_append[OF name(2), of OUTPUT_DIR] by (simp_all add: path_of_OUTPUT_DIR)
  show ?thesis
    using ready dir body D src dn
    by (subst with_Diagram_no_dot) (auto simp: ready_for_def is_dir_def)
qed

end
