(* ===== verification/Script_Diagrams_A.thy ===== *)
theory Script_Diagrams_A
  imports Script_Module
begin

text \<open>
  The first five diagram functions of \<open>generate_diagrams.py\<close> (lines 69--284),
  statement by statement: each \<open>with Cluster(...)\<close> block returns the nodes
  it binds (Python's function scope keeps them visible after the block), and
  each chain \<open>a >> b >> c\<close> is \<open>(a >> b) >> c\<close>, the left-associative
  application of \<open>rshift\<close>.
\<close>

definition diagram_01_idp_main_body :: "(dworld, unit) state" where
  "diagram_01_idp_main_body = do {
     (dev, gitlab) \<leftarrow> with_Cluster ''Developer Experience'' (do {
       dev \<leftarrow> Node User ''Developer'';
       gitlab \<leftarrow> Node Gitlab ''GitLab Repo'';
       State_Monad.return (dev, gitlab) });
     (gitlab_ci, atlantis, argocd) \<leftarrow> with_Cluster ''CI/CD Pipeline'' (do {
       gitlab_ci \<leftarrow> Node GitlabCI ''GitLab CI'';
       atlantis \<leftarrow> Node Atlantis ''Atlantis IaC'';
       argocd \<leftarrow> Node Argocd ''ArgoCD'';
       State_Monad.return (gitlab_ci, atlantis, argocd) });
     ((vault, prometheus, ingress), (dev_ns, stg_ns, prod_ns)) \<leftarrow>
       with_Cluster ''Azure Kubernetes Service'' (do {
       ps \<leftarrow> with_Cluster ''Platform Services'' (do {
         vault \<leftarrow> Node Vault ''HashiCorp Vault'';
         prometheus \<leftarrow> Node Prometheus ''Prometheus'';
         ingress \<leftarrow> Node Nginx ''Ingress'';
         State_Monad.return (vault, prometheus, ingress) });
       ns \<leftarrow> with_Cluster ''Application Namespaces'' (do {
         dev_ns \<leftarrow> Node Pod ''Dev'';
         stg_ns \<leftarrow> Node Pod ''Staging'';
         prod_ns \<leftarrow> Node Pod ''Production'';
         State_Monad.return (dev_ns, stg_ns, prod_ns) });
       State_Monad.return (ps, ns) });
     (storage, postgres, redis, aad) \<leftarrow> with_Cluster ''Azure Cloud Services'' (do {
       storage \<leftarrow> Node StorageAccounts ''Storage'';
       postgres \<leftarrow> Node DatabaseForPostgresqlServers ''PostgreSQL'';
       redis \<leftarrow> Node CacheForRedis ''Redis Cache'';
       aad \<leftarrow> Node ActiveDirectory ''Azure AD'';
       State_Monad.return (storage, postgres, redis, aad) });
     rshift dev gitlab \<bind> (\<lambda>x. rshift x gitlab_ci);
     rshift gitlab_ci atlantis;
     rshift gitlab_ci argocd;
     rshift atlantis storage;
     rshift atlantis postgres;
     rshift atlantis redis;
     rshift argocd dev_ns;
     rshift argocd stg_ns;
     rshift argocd prod_ns;
     rshift aad vault;
     rshift vault (OList [dev_ns, stg_ns, prod_ns]);
     State_Monad.return ()
   }"

definition diagram_01_idp_main :: "(dworld, unit) state" where
  "diagram_01_idp_main =
     with_Diagram ''Internal Developer Platform'' (OUTPUT_DIR @ ''/01-idp-main'') False ''TB'' graph_attr node_attr edge_attr
       diagram_01_idp_main_body"

definition image_01_idp_main :: "nat \<Rightarrow> diagram" where
  "image_01_idp_main =
     drawn (new_diagram ''Internal Developer Platform'' (OUTPUT_DIR @ ''/01-idp-main'') False ''TB'' graph_attr node_attr edge_attr) diagram_01_idp_main_body"

definition diagram_01_idp_gitops_body :: "(dworld, unit) state" where
  "diagram_01_idp_gitops_body = do {
     (code, infra) \<leftarrow> with_Cluster ''Source'' (do {
       code \<leftarrow> Node Github ''App Code'';
       infra \<leftarrow> Node Github ''Infra Code'';
       State_Monad.return (code, infra) });
     (docker, helm, tf) \<leftarrow> with_Cluster ''Build'' (do {
       docker \<leftarrow> Node Docker ''Docker Build'';
       helm \<leftarrow> Node Docker ''Helm Package'';
       tf \<leftarrow> Node Terraform ''TF Plan'';
       State_Monad.return (docker, helm, tf) });
     (argocd, atlantis) \<leftarrow> with_Cluster ''Deploy'' (do {
       argocd \<leftarrow> Node Argocd ''ArgoCD Sync'';
       atlantis \<leftarrow> Node Atlantis ''Atlantis Apply'';
       State_Monad.return (argocd, atlantis) });
     (k8s, azure) \<leftarrow> with_Cluster ''Target'' (do {
       k8s \<leftarrow> Node KubernetesServices ''AKS Cluster'';
       azure \<leftarrow> Node StorageAccounts ''Azure Resources'';
       State_Monad.return (k8s, azure) });
     rshift code docker \<bind> (\<lambda>x. rshift x argocd) \<bind> (\<lambda>x. rshift x k8s);
     rshift code helm \<bind> (\<lambda>x. rshift x argocd);
     rshift infra tf \<bind> (\<lambda>x. rshift x atlantis) \<bind> (\<lambda>x. rshift x azure);
     State_Monad.return ()
   }"

definition diagram_01_idp_gitops :: "(dworld, unit) state" where
  "diagram_01_idp_gitops =
     with_Diagram ''GitOps Workflow'' (OUTPUT_DIR @ ''/01-idp-gitops'') False ''LR'' graph_attr [] []
       diagram_01_idp_gitops_body"

definition image_01_idp_gitops :: "nat \<Rightarrow> diagram" where
  "image_01_idp_gitops =
     drawn (new_diagram ''GitOps Workflow'' (OUTPUT_DIR @ ''/01-idp-gitops'') False ''LR'' graph_attr [] []) diagram_01_idp_gitops_body"

definition edge_device_label :: string where
  \<comment> \<open>the Python literal \<open>"Edge Device\nCoreOS + K3s"\<close>\<close>
  "edge_device_label = ''Edge Device'' @ [CHR 0x0A] @ ''CoreOS + K3s''"

definition diagram_02_edge_cloud_main_body :: "(dworld, unit) state" where
  "diagram_02_edge_cloud_main_body = do {
     ((api, registry), (cdn, s3, rds), vpn) \<leftarrow> with_Cluster ''AWS Cloud Region'' (do {
       cp \<leftarrow> with_Cluster ''Control Plane - EKS'' (do {
         api \<leftarrow> Node EKS ''TMS API'';
         registry \<leftarrow> Node EKS ''Device Registry'';
         State_Monad.return (api, registry) });
       svc \<leftarrow> with_Cluster ''AWS Services'' (do {
         cdn \<leftarrow> Node CloudFront ''CloudFront'';
         s3 \<leftarrow> Node S3 ''S3 Storage'';
         rds \<leftarrow> Node RDS ''PostgreSQL'';
         State_Monad.return (cdn, s3, rds) });
       vpn \<leftarrow> Node VpnGateway ''VPN Gateway'';
       State_Monad.return (cp, svc, vpn) });
     (edge_a, term_a) \<leftarrow> with_Cluster ''Edge Location A'' (do {
       edge_a \<leftarrow> Node EC2 edge_device_label;
       term_a \<leftarrow> Node Mobile ''Terminals'';
       State_Monad.return (edge_a, term_a) });
     (edge_b, term_b) \<leftarrow> with_Cluster ''Edge Location B'' (do {
       edge_b \<leftarrow> Node EC2 edge_device_label;
       term_b \<leftarrow> Node Mobile ''Terminals'';
       State_Monad.return (edge_b, term_b) });
     (edge_n, term_n) \<leftarrow> with_Cluster ''Edge Location N'' (do {
       edge_n \<leftarrow> Node EC2 edge_device_label;
       term_n \<leftarrow> Node Mobile ''Terminals'';
       State_Monad.return (edge_n, term_n) });
     rshift api rds;
     rshift api s3;
     rshift cdn s3;
     rshift vpn (Edge ''VPN'' [] ''dashed'') \<bind> (\<lambda>x. rshift x edge_a);
     rshift vpn (Edge ''VPN'' [] ''dashed'') \<bind> (\<lambda>x. rshift x edge_b);
     rshift vpn (Edge ''VPN'' [] ''dashed'') \<bind> (\<lambda>x. rshift x edge_n);
     rshift edge_a term_a;
     rshift edge_b term_b;
     rshift edge_n term_n;
     rshift edge_a (Edge ''Sync'' [] ''dotted'') \<bind> (\<lambda>x. rshift x api);
     rshift edge_b (Edge ''Sync'' [] ''dotted'') \<bind> (\<lambda>x. rshift x api);
     rshift edge_n (Edge ''Sync'' [] ''dotted'') \<bind> (\<lambda>x. rshift x api);
     State_Monad.return ()
   }"

definition diagram_02_edge_cloud_main :: "(dworld, unit) state" where
  "diagram_02_edge_cloud_main =
     with_Diagram ''Hybrid Edge-Cloud Architecture'' (OUTPUT_DIR @ ''/02-edge-cloud-main'') False ''TB'' graph_attr [] []
       diagram_02_edge_cloud_main_body"

definition image_02_edge_cloud_main :: "nat \<Rightarrow> diagram" where
  "image_02_edge_cloud_main =
     drawn (new_diagram ''Hybrid Edge-Cloud Architecture'' (OUTPUT_DIR @ ''/02-edge-cloud-main'') False ''TB'' graph_attr [] []) diagram_02_edge_cloud_main_body"

definition diagram_03_hcl_main_body :: "(dworld, unit) state" where
  "diagram_03_hcl_main_body = do {
     (ado, helm) \<leftarrow> with_Cluster ''CI/CD'' (do {
       ado \<leftarrow> Node Devops ''Azure DevOps'';
       helm \<leftarrow> Node Docker ''Helm Charts'';
       State_Monad.return (ado, helm) });
     (((store, search, auth, ts), (argocd, vault, ingress)), (sql, blob, redis)) \<leftarrow>
       with_Cluster ''Azure Cloud'' (do {
       aks \<leftarrow> with_Cluster ''Azure Kubernetes Service'' (do {
         hcl \<leftarrow> with_Cluster ''HCL Commerce v9'' (do {
           store \<leftarrow> Node Pod ''Store Server'';
           search \<leftarrow> Node Pod ''Search Server'';
           auth \<leftarrow> Node Pod ''Auth Server'';
           ts \<leftarrow> Node Pod ''Transaction'';
           State_Monad.return (store, search, auth, ts) });
         ps \<leftarrow> with_Cluster ''Platform Services'' (do {
           argocd \<leftarrow> Node Argocd ''ArgoCD'';
           vault \<leftarrow> Node KeyVaults ''SOPS/Vault'';
           ingress \<leftarrow> Node Nginx ''Ingress'';
           State_Monad.return (argocd, vault, ingress) });
         State_Monad.return (hcl, ps) });
       managed \<leftarrow> with_Cluster ''Azure Managed Services'' (do {
         sql \<leftarrow> Node DatabaseForPostgresqlServers ''Azure SQL'';
         blob \<leftarrow> Node BlobStorage ''Blob Storage'';
         redis \<leftarrow> Node CacheForRedis ''Redis Cache'';
         State_Monad.return (sql, blob, redis) });
       State_Monad.return (aks, managed) });
     rshift ado argocd;
     rshift helm argocd;
     rshift vault argocd;
     rshift argocd store;
     rshift argocd search;
     rshift argocd auth;
     rshift argocd ts;
     rshift store sql;
     rshift store blob;
     rshift store redis;
     State_Monad.return ()
   }"

definition diagram_03_hcl_main :: "(dworld, unit) state" where
  "diagram_03_hcl_main =
     with_Diagram ''HCL Commerce on AKS'' (OUTPUT_DIR @ ''/03-hcl-main'') False ''TB'' graph_attr [] []
       diagram_03_hcl_main_body"

definition image_03_hcl_main :: "nat \<Rightarrow> diagram" where
  "image_03_hcl_main =
     drawn (new_diagram ''HCL Commerce on AKS'' (OUTPUT_DIR @ ''/03-hcl-main'') False ''TB'' graph_attr [] []) diagram_03_hcl_main_body"

definition diagram_03_hcl_bluegreen_body :: "(dworld, unit) state" where
  "diagram_03_hcl_bluegreen_body = do {
     with_Cluster ''Before'' (do {
       b_svc \<leftarrow> Node Service ''Active Service'';
       b_blue \<leftarrow> Node Deployment ''v1.0.0 (Blue)'';
       rshift b_svc b_blue;
       State_Monad.return () });
     with_Cluster ''During Deployment'' (do {
       d_asvc \<leftarrow> Node Service ''Active Svc'';
       d_psvc \<leftarrow> Node Service ''Preview Svc'';
       d_blue \<leftarrow> Node Deployment ''v1.0.0'';
       d_green \<leftarrow> Node Deployment ''v1.1.0'';
       rshift d_asvc d_blue;
       rshift d_psvc d_green;
       State_Monad.return () });
     with_Cluster ''After Promotion'' (do {
       a_svc \<leftarrow> Node Service ''Active Service'';
       a_green \<leftarrow> Node Deployment ''v1.1.0 (Green)'';
       rshift a_svc a_green;
       State_Monad.return () });
     State_Monad.return ()
   }"

definition diagram_03_hcl_bluegreen :: "(dworld, unit) state" where
  "diagram_03_hcl_bluegreen =
     with_Diagram ''Blue-Green Deployment'' (OUTPUT_DIR @ ''/03-hcl-bluegreen'') False ''LR'' graph_attr [] []
       diagram_03_hcl_bluegreen_body"

definition image_03_hcl_bluegreen :: "nat \<Rightarrow> diagram" where
  "image_03_hcl_bluegreen =
     drawn (new_diagram ''Blue-Green Deployment'' (OUTPUT_DIR @ ''/03-hcl-bluegreen'') False ''LR'' graph_attr [] []) diagram_03_hcl_bluegreen_body"

subsection \<open>Running the diagram functions\<close>


lemma diagram_01_idp_main_body_run:
  "exc w = None \<Longrightarrow> cur_cluster w = None \<Longrightarrow>
   run_state diagram_01_idp_main_body (w\<lparr>ctx := Some (new_diagram ''Internal Developer Platform'' (OUTPUT_DIR @ ''/01-idp-main'') False ''TB'' graph_attr node_attr edge_attr)\<rparr>) =
     ((), w\<lparr>ctx := Some (image_01_idp_main (fresh w)), fresh := fresh w + 21\<rparr>)"
  by (cases w) (simp add: run_simps diagram_01_idp_main_body_def image_01_idp_main_def drawn_def template_def)

lemma image_01_idp_main_ok:
  "let d = image_01_idp_main k in
     scene_ok d \<and> d_filename d = OUTPUT_DIR @ ''/01-idp-main'' \<and> d_outformat d = ''png''"
  by (simp add: image_simps diagram_01_idp_main_body_def image_01_idp_main_def)

lemma diagram_01_idp_main_run:
  "ready_for ''01-idp-main'' w \<Longrightarrow>
   run_state diagram_01_idp_main w = ((), rendered ''01-idp-main'' (image_01_idp_main (fresh w)) (fresh w + 21) w)"
  unfolding diagram_01_idp_main_def
  using image_01_idp_main_ok[of "fresh w"]
  by (intro script_diagram_run)
     (auto simp: ready_for_def valid_direction_def py_upper_def upper_char_def Let_def
      diagram_01_idp_main_body_run)

lemma diagram_01_idp_main_creates:
  "fs_ok (fs w) \<Longrightarrow> list_all (not_file (fs w)) (ancestors out_dir) \<Longrightarrow>
   ready_for ''01-idp-main'' (w\<lparr>fs := mk_dirs out_dir (fs w)\<rparr>) \<Longrightarrow>
   run_state diagram_01_idp_main w =
     ((), rendered ''01-idp-main'' (image_01_idp_main (fresh w)) (fresh w + 21) (w\<lparr>fs := mk_dirs out_dir (fs w)\<rparr>))"
  unfolding diagram_01_idp_main_def
  using image_01_idp_main_ok[of "fresh w"]
  by (intro script_diagram_creates)
     (auto simp: ready_for_def valid_direction_def py_upper_def upper_char_def Let_def
      diagram_01_idp_main_body_run)

lemma diagram_01_idp_gitops_body_run:
  "exc w = None \<Longrightarrow> cur_cluster w = None \<Longrightarrow>
   run_state diagram_01_idp_gitops_body (w\<lparr>ctx := Some (new_diagram ''GitOps Workflow'' (OUTPUT_DIR @ ''/01-idp-gitops'') False ''LR'' graph_attr [] [])\<rparr>) =
     ((), w\<lparr>ctx := Some (image_01_idp_gitops (fresh w)), fresh := fresh w + 13\<rparr>)"
  by (cases w) (simp add: run_simps diagram_01_idp_gitops_body_def image_01_idp_gitops_def drawn_def template_def)

lemma image_01_idp_gitops_ok:
  "let d = image_01_idp_gitops k in
     scene_ok d \<and> d_filename d = OUTPUT_DIR @ ''/01-idp-gitops'' \<and> d_outformat d = ''png''"
  by (simp add: image_simps diagram_01_idp_gitops_body_def image_01_idp_gitops_def)

lemma diagram_01_idp_gitops_run:
  "ready_for ''01-idp-gitops'' w \<Longrightarrow>
   run_state diagram_01_idp_gitops w = ((), rendered ''01-idp-gitops'' (image_01_idp_gitops (fresh w)) (fresh w + 13) w)"
  unfolding diagram_01_idp_gitops_def
  using image_01_idp_gitops_ok[of "fresh w"]
  by (intro script_diagram_run)
     (auto simp: ready_for_def valid_direction_def py_upper_def upper_char_def Let_def
      diagram_01_idp_gitops_body_run)

lemma diagram_02_edge_cloud_main_body_run:
  "exc w = None \<Longrightarrow> cur_cluster w = None \<Longrightarrow>
   run_state diagram_02_edge_cloud_main_body (w\<lparr>ctx := Some (new_diagram ''Hybrid Edge-Cloud Architecture'' (OUTPUT_DIR @ ''/02-edge-cloud-main'') False ''TB'' graph_attr [] [])\<rparr>) =
     ((), w\<lparr>ctx := Some (image_02_edge_cloud_main (fresh w)), fresh := fresh w + 18\<rparr>)"
  by (cases w) (simp add: run_simps diagram_02_edge_cloud_main_body_def image_02_edge_cloud_main_def drawn_def template_def edge_device_label_def)

lemma image_02_edge_cloud_main_ok:
  "let d = image_02_edge_cloud_main k in
     scene_ok d \<and> d_filename d = OUTPUT_DIR @ ''/02-edge-cloud-main'' \<and> d_outformat d = ''png''"
  by (simp add: image_simps diagram_02_edge_cloud_main_body_def image_02_edge_cloud_main_def edge_device_label_def)

lemma diagram_02_edge_cloud_main_run:
  "ready_for ''02-edge-cloud-main'' w \<Longrightarrow>
   run_state diagram_02_edge_cloud_main w = ((), rendered ''02-edge-cloud-main'' (image_02_edge_cloud_main (fresh w)) (fresh w + 18) w)"
  unfolding diagram_02_edge_cloud_main_def
  using image_02_edge_cloud_main_ok[of "fresh w"]
  by (intro script_diagram_run)
     (auto simp: ready_for_def valid_direction_def py_upper_def upper_char_def Let_def
      diagram_02_edge_cloud_main_body_run)

lemma diagram_03_hcl_main_body_run:
  "exc w = None \<Longrightarrow> cur_cluster w = None \<Longrightarrow>
   run_state diagram_03_hcl_main_body (w\<lparr>ctx := Some (new_diagram ''HCL Commerce on AKS'' (OUTPUT_DIR @ ''/03-hcl-main'') False ''TB'' graph_attr [] [])\<rparr>) =
     ((), w\<lparr>ctx := Some (image_03_hcl_main (fresh w)), fresh := fresh w + 18\<rparr>)"
  by (cases w) (simp add: run_simps diagram_03_hcl_main_body_def image_03_hcl_main_def drawn_def template_def)

lemma image_03_hcl_main_ok:
  "let d = image_03_hcl_main k in
     scene_ok d \<and> d_filename d = OUTPUT_DIR @ ''/03-hcl-main'' \<and> d_outformat d = ''png''"
  by (simp add: image_simps diagram_03_hcl_main_body_def image_03_hcl_main_def)

lemma diagram_03_hcl_main_run:
  "ready_for ''03-hcl-main'' w \<Longrightarrow>
   run_state diagram_03_hcl_main w = ((), rendered ''03-hcl-main'' (image_03_hcl_main (fresh w)) (fresh w + 18) w)"
  unfolding diagram_03_hcl_main_def
  using image_03_hcl_main_ok[of "fresh w"]
  by (intro script_diagram_run)
     (auto simp: ready_for_def valid_direction_def py_upper_def upper_char_def Let_def
      diagram_03_hcl_main_body_run)

lemma diagram_03_hcl_bluegreen_body_run:
  "exc w = None \<Longrightarrow> cur_cluster w = None \<Longrightarrow>
   run_state diagram_03_hcl_bluegreen_body (w\<lparr>ctx := Some (new_diagram ''Blue-Green Deployment'' (OUTPUT_DIR @ ''/03-hcl-bluegreen'') False ''LR'' graph_attr [] [])\<rparr>) =
     ((), w\<lparr>ctx := Some (image_03_hcl_bluegreen (fresh w)), fresh := fresh w + 11\<rparr>)"
  by (cases w) (simp add: run_simps diagram_03_hcl_bluegreen_body_def image_03_hcl_bluegreen_def drawn_def template_def)

lemma image_03_hcl_bluegreen_ok:
  "let d = image_03_hcl_bluegreen k in
     scene_ok d \<and> d_filename d = OUTPUT_DIR @ ''/03-hcl-bluegreen'' \<and> d_outformat d = ''png''"
  by (simp add: image_simps diagram_03_hcl_bluegreen_body_def image_03_hcl_bluegreen_def)

lemma diagram_03_hcl_bluegreen_run:
  "ready_for ''03-hcl-bluegreen'' w \<Longrightarrow>
   run_state diagram_03_hcl_bluegreen w = ((), rendered ''03-hcl-bluegreen'' (image_03_hcl_bluegreen (fresh w)) (fresh w + 11) w)"
  unfolding diagram_03_hcl_bluegreen_def
  using image_03_hcl_bluegreen_ok[of "fresh w"]
  by (intro script_diagram_run)
     (auto simp: ready_for_def valid_direction_def py_upper_def upper_char_def Let_def
      diagram_03_hcl_bluegreen_body_run)

end
