(* ===== verification/Script_Diagrams_B.thy ===== *)
theory Script_Diagrams_B
  imports Script_Module
begin

text \<open>
  The last seven diagram functions of \<open>generate_diagrams.py\<close> (lines 287--540),
  translated as in \<open>Script_Diagrams_A\<close>: the body of each \<open>with Diagram(...)\<close>
  block is one definition, the function itself is \<open>with_Diagram\<close> around it.
  Nodes created outside any \<open>Cluster\<close> (\<open>users\<close>, \<open>datadog\<close>, \<open>cloud\<close>,
  \<open>terminals\<close>) belong to the diagram itself.
\<close>

definition diagram_04_edx_main_body :: "(dworld, unit) state" where
  "diagram_04_edx_main_body = do {
     users \<leftarrow> Node Users ''50M+ Learners'';
     (r53, cf, waf) \<leftarrow> with_Cluster ''Edge & CDN'' (do {
       r53 \<leftarrow> Node Route53 ''Route 53'';
       cf \<leftarrow> Node CloudFront ''CloudFront'';
       waf \<leftarrow> Node WAF ''AWS WAF'';
       State_Monad.return (r53, cf, waf) });
     ((lms, cms, ecomm), (notes, forums, more)) \<leftarrow> with_Cluster ''EKS Cluster'' (do {
       core \<leftarrow> with_Cluster ''Core Services'' (do {
         lms \<leftarrow> Node EKS ''LMS'';
         cms \<leftarrow> Node EKS ''CMS/Studio'';
         ecomm \<leftarrow> Node EKS ''Ecommerce'';
         State_Monad.return (lms, cms, ecomm) });
       supp \<leftarrow> with_Cluster ''Supporting'' (do {
         notes \<leftarrow> Node Pod ''Notes'';
         forums \<leftarrow> Node Pod ''Forums'';
         more \<leftarrow> Node Pod ''+40 more'';
         State_Monad.return (notes, forums, more) });
       State_Monad.return (core, supp) });
     ec2 \<leftarrow> with_Cluster ''Legacy ASG'' (Node EC2 ''EC2 Services'');
     (rds, redis, s3) \<leftarrow> with_Cluster ''Data Layer'' (do {
       rds \<leftarrow> Node RDS ''RDS MySQL'';
       redis \<leftarrow> Node ElasticacheForRedis ''ElastiCache'';
       s3 \<leftarrow> Node S3 ''S3 Storage'';
       State_Monad.return (rds, redis, s3) });
     argocd \<leftarrow> with_Cluster ''GitOps'' (Node Argocd ''ArgoCD'');
     datadog \<leftarrow> with_Cluster ''Observability'' (Node Datadog ''Datadog/NewRelic'');
     rshift users r53 \<bind> (\<lambda>x. rshift x cf) \<bind> (\<lambda>x. rshift x waf);
     rshift waf lms;
     rshift waf ec2;
     rshift lms rds;
     rshift lms redis;
     rshift cms s3;
     rshift argocd lms;
     rshift argocd cms;
     rshift lms datadog;
     State_Monad.return ()
   }"

definition diagram_04_edx_main :: "(dworld, unit) state" where
  "diagram_04_edx_main =
     with_Diagram ''edX Platform Architecture'' (OUTPUT_DIR @ ''/04-edx-main'') False ''TB'' graph_attr [] []
       diagram_04_edx_main_body"

definition image_04_edx_main :: "nat \<Rightarrow> diagram" where
  "image_04_edx_main =
     drawn (new_diagram ''edX Platform Architecture'' (OUTPUT_DIR @ ''/04-edx-main'') False ''TB'' graph_attr [] []) diagram_04_edx_main_body"

definition diagram_04_edx_migration_body :: "(dworld, unit) state" where
  "diagram_04_edx_migration_body = do {
     ec2 \<leftarrow> with_Cluster ''Source: EC2'' (Node EC2 ''EC2 Instances'');
     (docker, helm, test) \<leftarrow> with_Cluster ''Migration Process'' (do {
       docker \<leftarrow> Node Docker ''1. Containerize'';
       helm \<leftarrow> Node Docker ''2. Helm Chart'';
       test \<leftarrow> Node EKS ''3. Parallel Test'';
       State_Monad.return (docker, helm, test) });
     (eks, argocd) \<leftarrow> with_Cluster ''Target: EKS'' (do {
       eks \<leftarrow> Node EKS ''EKS Cluster'';
       argocd \<leftarrow> Node Argocd ''ArgoCD'';
       State_Monad.return (eks, argocd) });
     rshift ec2 docker \<bind> (\<lambda>x. rshift x helm) \<bind> (\<lambda>x. rshift x test) \<bind> (\<lambda>x. rshift x eks);
     rshift argocd eks;
     State_Monad.return ()
   }"

definition diagram_04_edx_migration :: "(dworld, unit) state" where
  "diagram_04_edx_migration =
     with_Diagram ''EC2 to EKS Migration'' (OUTPUT_DIR @ ''/04-edx-migration'') False ''LR'' graph_attr [] []
       diagram_04_edx_migration_body"

definition image_04_edx_migration :: "nat \<Rightarrow> diagram" where
  "image_04_edx_migration =
     drawn (new_diagram ''EC2 to EKS Migration'' (OUTPUT_DIR @ ''/04-edx-migration'') False ''LR'' graph_attr [] []) diagram_04_edx_migration_body"

definition diagram_05_cisco_main_body :: "(dworld, unit) state" where
  "diagram_05_cisco_main_body = do {
     users \<leftarrow> Node Users ''85K Peak RPS'';
     (cdn, lb) \<leftarrow> with_Cluster ''Edge Layer'' (do {
       cdn \<leftarrow> Node CDN ''Cloud CDN'';
       lb \<leftarrow> Node LoadBalancing ''Global LB'';
       State_Monad.return (cdn, lb) });
     (n1, n2, n3, n150) \<leftarrow> with_Cluster ''Application Tier - Auto Scaling'' (
       with_Cluster ''150 Nodes'' (do {
         n1 \<leftarrow> Node ComputeEngine ''Node 01'';
         n2 \<leftarrow> Node ComputeEngine ''Node 02'';
         n3 \<leftarrow> Node ComputeEngine ''Node ...'';
         n150 \<leftarrow> Node ComputeEngine ''Node 150'';
         State_Monad.return (n1, n2, n3, n150) }));
     redis \<leftarrow> with_Cluster ''Caching Layer'' (Node Redis ''Redis Cluster'');
     (primary, (r1, r2, rn)) \<leftarrow> with_Cluster ''Database Tier'' (do {
       primary \<leftarrow> with_Cluster ''Write Path'' (Node SQL ''Primary DB'');
       reps \<leftarrow> with_Cluster ''Read Path - 31 Replicas'' (do {
         r1 \<leftarrow> Node SQL ''Replica 1'';
         r2 \<leftarrow> Node SQL ''Replica 2'';
         rn \<leftarrow> Node SQL ''Replica 31'';
         State_Monad.return (r1, r2, rn) });
       State_Monad.return (primary, reps) });
     datadog \<leftarrow> Node Datadog ''Datadog APM'';
     rshift users cdn \<bind> (\<lambda>x. rshift x lb);
     rshift lb n1;
     rshift lb n2;
     rshift lb n3;
     rshift lb n150;
     rshift n1 redis;
     rshift n1 primary;
     rshift n1 r1;
     rshift primary (Edge [] [] ''dashed'') \<bind> (\<lambda>x. rshift x r1);
     rshift primary (Edge [] [] ''dashed'') \<bind> (\<lambda>x. rshift x r2);
     rshift primary (Edge [] [] ''dashed'') \<bind> (\<lambda>x. rshift x rn);
     rshift n1 datadog;
     State_Monad.return ()
   }"

definition diagram_05_cisco_main :: "(dworld, unit) state" where
  "diagram_05_cisco_main =
     with_Diagram ''Cisco Live Platform - 85K RPS'' (OUTPUT_DIR @ ''/05-cisco-main'') False ''TB'' graph_attr [] []
       diagram_05_cisco_main_body"

definition image_05_cisco_main :: "nat \<Rightarrow> diagram" where
  "image_05_cisco_main =
     drawn (new_diagram ''Cisco Live Platform - 85K RPS'' (OUTPUT_DIR @ ''/05-cisco-main'') False ''TB'' graph_attr [] []) diagram_05_cisco_main_body"

definition min_nodes_label :: string where
  \<comment> \<open>the Python literal \<open>"Min: 20\nPre-warmed"\<close>\<close>
  "min_nodes_label = ''Min: 20'' @ [CHR 0x0A] @ ''Pre-warmed''"

definition diagram_05_cisco_scaling_body :: "(dworld, unit) state" where
  "diagram_05_cisco_scaling_body = do {
     monitoring \<leftarrow> with_Cluster ''Metrics'' (Node Monitoring ''CPU/RPS Metrics'');
     policy \<leftarrow> with_Cluster ''Scaling Decision'' (Node Monitoring ''Scaling Policy'');
     (min_nodes, scaled, max_nodes) \<leftarrow> with_Cluster ''Instance Pool'' (do {
       min_nodes \<leftarrow> Node ComputeEngine min_nodes_label;
       scaled \<leftarrow> Node ComputeEngine ''Scaled: 21-150'';
       max_nodes \<leftarrow> Node ComputeEngine ''Max: 200'';
       State_Monad.return (min_nodes, scaled, max_nodes) });
     rshift monitoring policy;
     rshift policy scaled;
     rshift min_nodes scaled \<bind> (\<lambda>x. rshift x max_nodes);
     State_Monad.return ()
   }"

definition diagram_05_cisco_scaling :: "(dworld, unit) state" where
  "diagram_05_cisco_scaling =
     with_Diagram ''Auto-Scaling Architecture'' (OUTPUT_DIR @ ''/05-cisco-scaling'') False ''LR'' graph_attr [] []
       diagram_05_cisco_scaling_body"

definition image_05_cisco_scaling :: "nat \<Rightarrow> diagram" where
  "image_05_cisco_scaling =
     drawn (new_diagram ''Auto-Scaling Architecture'' (OUTPUT_DIR @ ''/05-cisco-scaling'') False ''LR'' graph_attr [] []) diagram_05_cisco_scaling_body"

definition diagram_02_edge_device_body :: "(dworld, unit) state" where
  "diagram_02_edge_device_body = do {
     ((agent, sync, localdb, config), (vpn_client, updates, monitor)) \<leftarrow>
       with_Cluster ''Edge Device (CoreOS)'' (do {
       k3s \<leftarrow> with_Cluster ''K3s Cluster'' (do {
         agent \<leftarrow> Node Pod ''TMS Agent'';
         sync \<leftarrow> Node Pod ''Sync Service'';
         localdb \<leftarrow> Node PostgreSQL ''Local DB'';
         config \<leftarrow> Node Pod ''Config Watcher'';
         State_Monad.return (agent, sync, localdb, config) });
       sys \<leftarrow> with_Cluster ''System Services'' (do {
         vpn_client \<leftarrow> Node Nginx ''VPN Client'';
         updates \<leftarrow> Node Docker ''Auto Updates'';
         monitor \<leftarrow> Node Prometheus ''Monitoring'';
         State_Monad.return (vpn_client, updates, monitor) });
       State_Monad.return (k3s, sys) });
     cloud \<leftarrow> Node EKS ''Cloud API'';
     terminals \<leftarrow> Node Mobile ''Terminals'';
     rshift agent localdb;
     rshift sync cloud;
     rshift agent terminals;
     rshift vpn_client cloud;
     State_Monad.return ()
   }"

definition diagram_02_edge_device :: "(dworld, unit) state" where
  "diagram_02_edge_device =
     with_Diagram ''Edge Device Architecture'' (OUTPUT_DIR @ ''/02-edge-device'') False ''TB'' graph_attr [] []
       diagram_02_edge_device_body"

definition image_02_edge_device :: "nat \<Rightarrow> diagram" where
  "image_02_edge_device =
     drawn (new_diagram ''Edge Device Architecture'' (OUTPUT_DIR @ ''/02-edge-device'') False ''TB'' graph_attr [] []) diagram_02_edge_device_body"

definition diagram_02_cicd_pipeline_body :: "(dworld, unit) state" where
  "diagram_02_cicd_pipeline_body = do {
     commit \<leftarrow> with_Cluster ''Source'' (Node Github ''Commit Code'');
     (build, test) \<leftarrow> with_Cluster ''Build'' (do {
       build \<leftarrow> Node Docker ''Build Docker'';
       test \<leftarrow> Node Docker ''Run E2E Tests'';
       State_Monad.return (build, test) });
     (staging, prod) \<leftarrow> with_Cluster ''Cloud Deploy'' (do {
       staging \<leftarrow> Node EKS ''Staging EKS'';
       prod \<leftarrow> Node EKS ''Production EKS'';
       State_Monad.return (staging, prod) });
     (iso, edge) \<leftarrow> with_Cluster ''Edge Deploy'' (do {
       iso \<leftarrow> Node Docker ''Edge ISO Build'';
       edge \<leftarrow> Node EC2 ''Edge Devices'';
       State_Monad.return (iso, edge) });
     rshift commit build \<bind> (\<lambda>x. rshift x test) \<bind> (\<lambda>x. rshift x staging) \<bind> (\<lambda>x. rshift x prod);
     rshift test iso \<bind> (\<lambda>x. rshift x edge);
     State_Monad.return ()
   }"

definition diagram_02_cicd_pipeline :: "(dworld, unit) state" where
  "diagram_02_cicd_pipeline =
     with_Diagram ''CI/CD Pipeline'' (OUTPUT_DIR @ ''/02-cicd-pipeline'') False ''LR'' graph_attr [] []
       diagram_02_cicd_pipeline_body"

definition image_02_cicd_pipeline :: "nat \<Rightarrow> diagram" where
  "image_02_cicd_pipeline =
     drawn (new_diagram ''CI/CD Pipeline'' (OUTPUT_DIR @ ''/02-cicd-pipeline'') False ''LR'' graph_attr [] []) diagram_02_cicd_pipeline_body"

definition diagram_04_incident_response_body :: "(dworld, unit) state" where
  "diagram_04_incident_response_body = do {
     alert \<leftarrow> with_Cluster ''Detection'' (Node Datadog ''Alert Trigger'');
     (page, triage) \<leftarrow> with_Cluster ''Response'' (do {
       page \<leftarrow> Node User ''PagerDuty'';
       triage \<leftarrow> Node User ''Triage (5min)'';
       State_Monad.return (page, triage) });
     (runbook, fix) \<leftarrow> with_Cluster ''Resolution'' (do {
       runbook \<leftarrow> Node Docker ''Runbook Lookup'';
       fix \<leftarrow> Node EKS ''Rollback/Fix'';
       State_Monad.return (runbook, fix) });
     rca \<leftarrow> with_Cluster ''Post-Incident'' (Node Docker ''RCA & Postmortem'');
     rshift alert page \<bind> (\<lambda>x. rshift x triage) \<bind> (\<lambda>x. rshift x runbook) \<bind>
       (\<lambda>x. rshift x fix) \<bind> (\<lambda>x. rshift x rca);
     State_Monad.return ()
   }"

definition diagram_04_incident_response :: "(dworld, unit) state" where
  "diagram_04_incident_response =
     with_Diagram ''Incident Response Flow'' (OUTPUT_DIR @ ''/04-incident-response'') False ''LR'' graph_attr [] []
       diagram_04_incident_response_body"

definition image_04_incident_response :: "nat \<Rightarrow> diagram" where
  "image_04_incident_response =
     drawn (new_diagram ''Incident Response Flow'' (OUTPUT_DIR @ ''/04-incident-response'') False ''LR'' graph_attr [] []) diagram_04_incident_response_body"

subsection \<open>Running the diagram functions\<close>


lemma diagram_04_edx_main_body_run:
  "exc w = None \<Longrightarrow> cur_cluster w = None \<Longrightarrow>
   run_state diagram_04_edx_main_body (w\<lparr>ctx := Some (new_diagram ''edX Platform Architecture'' (OUTPUT_DIR @ ''/04-edx-main'') False ''TB'' graph_attr [] [])\<rparr>) =
     ((), w\<lparr>ctx := Some (image_04_edx_main (fresh w)), fresh := fresh w + 24\<rparr>)"
  by (cases w) (simp add: run_simps diagram_04_edx_main_body_def image_04_edx_main_def drawn_def template_def)

lemma image_04_edx_main_ok:
  "let d = image_04_edx_main k in
     scene_ok d \<and> d_filename d = OUTPUT_DIR @ ''/04-edx-main'' \<and> d_outformat d = ''png''"
  by (simp add: image_simps diagram_04_edx_main_body_def image_04_edx_main_def)

lemma diagram_04_edx_main_run:
  "ready_for ''04-edx-main'' w \<Longrightarrow>
   run_state diagram_04_edx_main w = ((), rendered ''04-edx-main'' (image_04_edx_main (fresh w)) (fresh w + 24) w)"
  unfolding diagram_04_edx_main_def
  using image_04_edx_main_ok[of "fresh w"]
  by (intro script_diagram_run)
     (auto simp: ready_for_def valid_direction_def py_upper_def upper_char_def Let_def
      diagram_04_edx_main_body_run)

lemma diagram_04_edx_migration_body_run:
  "exc w = None \<Longrightarrow> cur_cluster w = None \<Longrightarrow>
   run_state diagram_04_edx_migration_body (w\<lparr>ctx := Some (new_diagram ''EC2 to EKS Migration'' (OUTPUT_DIR @ ''/04-edx-migration'') False ''LR'' graph_attr [] [])\<rparr>) =
     ((), w\<lparr>ctx := Some (image_04_edx_migration (fresh w)), fresh := fresh w + 9\<rparr>)"
  by (cases w) (simp add: run_simps diagram_04_edx_migration_body_def image_04_edx_migration_def drawn_def template_def)

lemma image_04_edx_migration_ok:
  "let d = image_04_edx_migration k in
     scene_ok d \<and> d_filename d = OUTPUT_DIR @ ''/04-edx-migration'' \<and> d_outformat d = ''png''"
  by (simp add: image_simps diagram_04_edx_migration_body_def image_04_edx_migration_def)

lemma diagram_04_edx_migration_run:
  "ready_for ''04-edx-migration'' w \<Longrightarrow>
   run_state diagram_04_edx_migration w = ((), rendered ''04-edx-migration'' (image_04_edx_migration (fresh w)) (fresh w + 9) w)"
  unfolding diagram_04_edx_migration_def
  using image_04_edx_migration_ok[of "fresh w"]
  by (intro script_diagram_run)
     (auto simp: ready_for_def valid_direction_def py_upper_def upper_char_def Let_def
      diagram_04_edx_migration_body_run)

lemma diagram_05_cisco_main_body_run:
  "exc w = None \<Longrightarrow> cur_cluster w = None \<Longrightarrow>
   run_state diagram_05_cisco_main_body (w\<lparr>ctx := Some (new_diagram ''Cisco Live Platform - 85K RPS'' (OUTPUT_DIR @ ''/05-cisco-main'') False ''TB'' graph_attr [] [])\<rparr>) =
     ((), w\<lparr>ctx := Some (image_05_cisco_main (fresh w)), fresh := fresh w + 20\<rparr>)"
  by (cases w) (simp add: run_simps diagram_05_cisco_main_body_def image_05_cisco_main_def drawn_def template_def)

lemma image_05_cisco_main_ok:
  "let d = image_05_cisco_main k in
     scene_ok d \<and> d_filename d = OUTPUT_DIR @ ''/05-cisco-main'' \<and> d_outformat d = ''png''"
  by (simp add: image_simps diagram_05_cisco_main_body_def image_05_cisco_main_def)

lemma diagram_05_cisco_main_run:
  "ready_for ''05-cisco-main'' w \<Longrightarrow>
   run_state diagram_05_cisco_main w = ((), rendered ''05-cisco-main'' (image_05_cisco_main (fresh w)) (fresh w + 20) w)"
  unfolding diagram_05_cisco_main_def
  using image_05_cisco_main_ok[of "fresh w"]
  by (intro script_diagram_run)
     (auto simp: ready_for_def valid_direction_def py_upper_def upper_char_def Let_def
      diagram_05_cisco_main_body_run)

lemma diagram_05_cisco_scaling_body_run:
  "exc w = None \<Longrightarrow> cur_cluster w = None \<Longrightarrow>
   run_state diagram_05_cisco_scaling_body (w\<lparr>ctx := Some (new_diagram ''Auto-Scaling Architecture'' (OUTPUT_DIR @ ''/05-cisco-scaling'') False ''LR'' graph_attr [] [])\<rparr>) =
     ((), w\<lparr>ctx := Some (image_05_cisco_scaling (fresh w)), fresh := fresh w + 8\<rparr>)"
  by (cases w) (simp add: run_simps diagram_05_cisco_scaling_body_def image_05_cisco_scaling_def drawn_def template_def min_nodes_label_def)

lemma image_05_cisco_scaling_ok:
  "let d = image_05_cisco_scaling k in
     scene_ok d \<and> d_filename d = OUTPUT_DIR @ ''/05-cisco-scaling'' \<and> d_outformat d = ''png''"
  by (simp add: image_simps diagram_05_cisco_scaling_body_def image_05_cisco_scaling_def min_nodes_label_def)

lemma diagram_05_cisco_scaling_run:
  "ready_for ''05-cisco-scaling'' w \<Longrightarrow>
   run_state diagram_05_cisco_scaling w = ((), rendered ''05-cisco-scaling'' (image_05_cisco_scaling (fresh w)) (fresh w + 8) w)"
  unfolding diagram_05_cisco_scaling_def
  using image_05_cisco_scaling_ok[of "fresh w"]
  by (intro script_diagram_run)
     (auto simp: ready_for_def valid_direction_def py_upper_def upper_char_def Let_def
      diagram_05_cisco_scaling_body_run)

lemma diagram_02_edge_device_body_run:
  "exc w = None \<Longrightarrow> cur_cluster w = None \<Longrightarrow>
   run_state diagram_02_edge_device_body (w\<lparr>ctx := Some (new_diagram ''Edge Device Architecture'' (OUTPUT_DIR @ ''/02-edge-device'') False ''TB'' graph_attr [] [])\<rparr>) =
     ((), w\<lparr>ctx := Some (image_02_edge_device (fresh w)), fresh := fresh w + 12\<rparr>)"
  by (cases w) (simp add: run_simps diagram_02_edge_device_body_def image_02_edge_device_def drawn_def template_def)

lemma image_02_edge_device_ok:
  "let d = image_02_edge_device k in
     scene_ok d \<and> d_filename d = OUTPUT_DIR @ ''/02-edge-device'' \<and> d_outformat d = ''png''"
  by (simp add: image_simps diagram_02_edge_device_body_def image_02_edge_device_def)

lemma diagram_02_edge_device_run:
  "ready_for ''02-edge-device'' w \<Longrightarrow>
   run_state diagram_02_edge_device w = ((), rendered ''02-edge-device'' (image_02_edge_device (fresh w)) (fresh w + 12) w)"
  unfolding diagram_02_edge_device_def
  using image_02_edge_device_ok[of "fresh w"]
  by (intro script_diagram_run)
     (auto simp: ready_for_def valid_direction_def py_upper_def upper_char_def Let_def
      diagram_02_edge_device_body_run)

lemma diagram_02_cicd_pipeline_body_run:
  "exc w = None \<Longrightarrow> cur_cluster w = None \<Longrightarrow>
   run_state diagram_02_cicd_pipeline_body (w\<lparr>ctx := Some (new_diagram ''CI/CD Pipeline'' (OUTPUT_DIR @ ''/02-cicd-pipeline'') False ''LR'' graph_attr [] [])\<rparr>) =
     ((), w\<lparr>ctx := Some (image_02_cicd_pipeline (fresh w)), fresh := fresh w + 11\<rparr>)"
  by (cases w) (simp add: run_simps diagram_02_cicd_pipeline_body_def image_02_cicd_pipeline_def drawn_def template_def)

lemma image_02_cicd_pipeline_ok:
  "let d = image_02_cicd_pipeline k in
     scene_ok d \<and> d_filename d = OUTPUT_DIR @ ''/02-cicd-pipeline'' \<and> d_outformat d = ''png''"
  by (simp add: image_simps diagram_02_cicd_pipeline_body_def image_02_cicd_pipeline_def)

lemma diagram_02_cicd_pipeline_run:
  "ready_for ''02-cicd-pipeline'' w \<Longrightarrow>
   run_state diagram_02_cicd_pipeline w = ((), rendered ''02-cicd-pipeline'' (image_02_cicd_pipeline (fresh w)) (fresh w + 11) w)"
  unfolding diagram_02_cicd_pipeline_def
  using image_02_cicd_pipeline_ok[of "fresh w"]
  by (intro script_diagram_run)
     (auto simp: ready_for_def valid_direction_def py_upper_def upper_char_def Let_def
      diagram_02_cicd_pipeline_body_run)

lemma diagram_04_incident_response_body_run:
  "exc w = None \<Longrightarrow> cur_cluster w = None \<Longrightarrow>
   run_state diagram_04_incident_response_body (w\<lparr>ctx := Some (new_diagram ''Incident Response Flow'' (OUTPUT_DIR @ ''/04-incident-response'') False ''LR'' graph_attr [] [])\<rparr>) =
     ((), w\<lparr>ctx := Some (image_04_incident_response (fresh w)), fresh := fresh w + 10\<rparr>)"
  by (cases w) (simp add: run_simps diagram_04_incident_response_body_def image_04_incident_response_def drawn_def template_def)

lemma image_04_incident_response_ok:
  "let d = image_04_incident_response k in
     scene_ok d \<and> d_filename d = OUTPUT_DIR @ ''/04-incident-response'' \<and> d_outformat d = ''png''"
  by (simp add: image_simps diagram_04_incident_response_body_def image_04_incident_response_def)

lemma diagram_04_incident_response_run:
  "ready_for ''04-incident-response'' w \<Longrightarrow>
   run_state diagram_04_incident_response w = ((), rendered ''04-incident-response'' (image_04_incident_response (fresh w)) (fresh w + 10) w)"
  unfolding diagram_04_incident_response_def
  using image_04_incident_response_ok[of "fresh w"]
  by (intro script_diagram_run)
     (auto simp: ready_for_def valid_direction_def py_upper_def upper_char_def Let_def
      diagram_04_incident_response_body_run)

end
