(* ===== verification/Script_Main.thy ===== *)
theory Script_Main
  imports Script_Diagrams_A Script_Diagrams_B
begin

text \<open>
  The entry point of \<open>generate_diagrams.py\<close>: the \<open>if __name__ == "__main__":\<close>
  block (lines 543--571) that prints progress lines and calls the twelve
  diagram functions in a fixed order, and the whole process: importing the
  module (which creates the output directory) and then running that block,
  from a fresh interpreter state over any file system.
\<close>

definition check_mark :: string where
  \<comment> \<open>U+2705, as the three UTF-8 bytes \<open>print\<close> writes to standard output\<close>
  "check_mark = [CHR 0xE2, CHR 0x9C, CHR 0x85]"

definition folder_mark :: string where
  \<comment> \<open>U+1F4C1, as the four UTF-8 bytes \<open>print\<close> writes to standard output\<close>
  "folder_mark = [CHR 0xF0, CHR 0x9F, CHR 0x93, CHR 0x81]"

definition main :: "(dworld, unit) state" where
  "main = do {
     py_print ''Generating architecture diagrams...'';
     py_print (''Output directory: '' @ OUTPUT_DIR);
     py_print (CHR 0x0A # ''1. Internal Developer Platform (AERQ)...'');
     diagram_01_idp_main;
     diagram_01_idp_gitops;
     py_print ''2. Hybrid Edge-Cloud Architecture (ChaiOne)...'';
     diagram_02_edge_cloud_main;
     diagram_02_edge_device;
     diagram_02_cicd_pipeline;
     py_print ''3. HCL Commerce Migration (Parker)...'';
     diagram_03_hcl_main;
     diagram_03_hcl_bluegreen;
     py_print ''4. edX SRE Platform...'';
     diagram_04_edx_main;
     diagram_04_edx_migration;
     diagram_04_incident_response;
     py_print ''5. Cisco Live Event Platform...'';
     diagram_05_cisco_main;
     diagram_05_cisco_scaling;
     py_print (CHR 0x0A # check_mark @ '' All diagrams generated successfully!'');
     py_print (folder_mark @ '' Check: '' @ OUTPUT_DIR)
   }"

definition run_script :: "(dworld, unit) state" where
  "run_script = do { module_init; main }"

definition init_world :: "content fs \<Rightarrow> bool \<Rightarrow> dworld" where
  "init_world f dot = \<lparr>fs = f, out = [], exc = None, ctx = None, cur_cluster = None,
     fresh = 0, dot_available = dot\<rparr>"

definition script_result :: "content fs \<Rightarrow> dworld" where
  "script_result f = snd (run_state run_script (init_world f True))"

subsection \<open>What the run should produce\<close>

text \<open>The twelve images in the order \<open>main\<close> writes them, with the first
  fresh id each diagram draws from.\<close>

definition script_images :: "(string \<times> diagram) list" where
  "script_images = [
     (''01-idp-main'', image_01_idp_main 0),
     (''01-idp-gitops'', image_01_idp_gitops 21),
     (''02-edge-cloud-main'', image_02_edge_cloud_main 34),
     (''02-edge-device'', image_02_edge_device 52),
     (''02-cicd-pipeline'', image_02_cicd_pipeline 64),
     (''03-hcl-main'', image_03_hcl_main 75),
     (''03-hcl-bluegreen'', image_03_hcl_bluegreen 93),
     (''04-edx-main'', image_04_edx_main 104),
     (''04-edx-migration'', image_04_edx_migration 128),
     (''04-incident-response'', image_04_incident_response 137),
     (''05-cisco-main'', image_05_cisco_main 147),
     (''05-cisco-scaling'', image_05_cisco_scaling 167)]"

definition render_events :: "string \<Rightarrow> event list" where
  "render_events n =
     [Mkdirs out_dir, Wrote (out_dir @ [n]), Wrote (out_dir @ [n @ ''.png'']), Unlinked (out_dir @ [n])]"

definition script_trace :: "event list" where
  "script_trace =
     [Mkdirs out_dir,
      Stdout ''Generating architecture diagrams...'',
      Stdout (''Output directory: '' @ OUTPUT_DIR),
      Stdout (CHR 0x0A # ''1. Internal Developer Platform (AERQ)...'')] @
     render_events ''01-idp-main'' @ render_events ''01-idp-gitops'' @
     [Stdout ''2. Hybrid Edge-Cloud Architecture (ChaiOne)...''] @
     render_events ''02-edge-cloud-main'' @ render_events ''02-edge-device'' @
     render_events ''02-cicd-pipeline'' @
     [Stdout ''3. HCL Commerce Migration (Parker)...''] @
     render_events ''03-hcl-main'' @ render_events ''03-hcl-bluegreen'' @
     [Stdout ''4. edX SRE Platform...''] @
     render_events ''04-edx-main'' @ render_events ''04-edx-migration'' @
     render_events ''04-incident-response'' @
     [Stdout ''5. Cisco Live Event Platform...''] @
     render_events ''05-cisco-main'' @ render_events ''05-cisco-scaling'' @
     [Stdout (CHR 0x0A # check_mark @ '' All diagrams generated successfully!''),
      Stdout (folder_mark @ '' Check: '' @ OUTPUT_DIR)]"

definition store_images :: "(string \<times> diagram) list \<Rightarrow> content fs \<Rightarrow> content fs" where
  "store_images imgs f =
     fold (\<lambda>(n, d) g. g(out_dir @ [n @ ''.png''] \<mapsto> File (Png d), out_dir @ [n] := None)) imgs f"

text \<open>
  The abstract behaviour of \<open>main\<close>: a sequence of actions, each printing a
  line or rendering one image (given with the number of fresh ids its
  diagram draws). \<open>main_run\<close> shows that \<open>main\<close> performs exactly this
  sequence.
\<close>

datatype action = Say string | Draw string diagram nat

fun perform :: "dworld \<Rightarrow> action \<Rightarrow> dworld" where
  "perform w (Say s) = w\<lparr>out := out w @ [Stdout s]\<rparr>"
| "perform w (Draw n D m) = rendered n D (fresh w + m) w"

definition main_actions :: "action list" where
  "main_actions = [
     Say ''Generating architecture diagrams...'',
     Say (''Output directory: '' @ OUTPUT_DIR),
     Say (CHR 0x0A # ''1. Internal Developer Platform (AERQ)...''),
     Draw ''01-idp-main'' (image_01_idp_main 0) 21,
     Draw ''01-idp-gitops'' (image_01_idp_gitops 21) 13,
     Say ''2. Hybrid Edge-Cloud Architecture (ChaiOne)...'',
     Draw ''02-edge-cloud-main'' (image_02_edge_cloud_main 34) 18,
     Draw ''02-edge-device'' (image_02_edge_device 52) 12,
     Draw ''02-cicd-pipeline'' (image_02_cicd_pipeline 64) 11,
     Say ''3. HCL Commerce Migration (Parker)...'',
     Draw ''03-hcl-main'' (image_03_hcl_main 75) 18,
     Draw ''03-hcl-bluegreen'' (image_03_hcl_bluegreen 93) 11,
     Say ''4. edX SRE Platform...'',
     Draw ''04-edx-main'' (image_04_edx_main 104) 24,
     Draw ''04-edx-migration'' (image_04_edx_migration 128) 9,
     Draw ''04-incident-response'' (image_04_incident_response 137) 10,
     Say ''5. Cisco Live Event Platform...'',
     Draw ''05-cisco-main'' (image_05_cisco_main 147) 20,
     Draw ''05-cisco-scaling'' (image_05_cisco_scaling 167) 8,
     Say (CHR 0x0A # check_mark @ '' All diagrams generated successfully!''),
     Say (folder_mark @ '' Check: '' @ OUTPUT_DIR)]"

fun action_events :: "action \<Rightarrow> event list" where
  "action_events (Say s) = [Stdout s]"
| "action_events (Draw n D m) = render_events n"

fun draws :: "action list \<Rightarrow> (string \<times> diagram) list" where
  "draws [] = []"
| "draws (Say s # as) = draws as"
| "draws (Draw n D m # as) = (n, D) # draws as"

definition written :: "dworld \<Rightarrow> path list" where
  "written w = concat (map (\<lambda>e. case e of Wrote p \<Rightarrow> [p] | _ \<Rightarrow> []) (out w))"

definition files_left :: "dworld \<Rightarrow> path list" where
  "files_left w = filter (\<lambda>p. fs w p \<noteq> None) (remdups (written w))"

text \<open>The file system the script can run on: the tree invariant holds, no
  prefix of the output directory is a regular file, and no output path is a
  directory.\<close>

definition runnable :: "content fs \<Rightarrow> bool" where
  "runnable f \<longleftrightarrow> fs_ok f \<and> list_all (not_file f) (ancestors out_dir) \<and>
     list_all (\<lambda>(n, d). f (out_dir @ [n]) \<noteq> Some Dir \<and> f (out_dir @ [n @ ''.png'']) \<noteq> Some Dir)
       script_images"

text \<open>The world after the module prologue: the output directory exists and
  its creation is logged.\<close>

definition start_world :: "content fs \<Rightarrow> dworld" where
  "start_world f = (init_world f True)\<lparr>fs := mk_dirs out_dir f, out := [Mkdirs out_dir]\<rparr>"

subsection \<open>Running \<open>main\<close>\<close>

lemma py_print_run: "exc w = None \<Longrightarrow> run_state (py_print s) w = ((), w\<lparr>out := out w @ [Stdout s]\<rparr>)"
  by (simp add: py_print_def guarded_def)

lemma ready_for_out_upd: "ready_for n (w\<lparr>out := x\<rparr>) = ready_for n w"
  by (simp add: ready_for_def)

lemma ready_for_out_fs_upd: "ready_for n (w\<lparr>out := x, fs := f\<rparr>) = ready_for n (w\<lparr>fs := f\<rparr>)"
  by (simp add: ready_for_def)

lemma ready_for_rendered:
  "ready_for n' w \<Longrightarrow> n' \<noteq> n \<Longrightarrow> n' \<noteq> n @ ''.png'' \<Longrightarrow> n' @ ''.png'' \<noteq> n \<Longrightarrow>
   ready_for n' (rendered n D k w)"
  by (auto simp: ready_for_def rendered_def is_dir_def butlast_out_dir_ne)

lemma rendered_simps [simp]:
  "exc (rendered n D k w) = exc w" "fresh (rendered n D k w) = k"
  by (simp_all add: rendered_def)

lemmas later_diagrams_run = diagram_01_idp_gitops_run diagram_02_edge_cloud_main_run
  diagram_02_edge_device_run diagram_02_cicd_pipeline_run diagram_03_hcl_main_run
  diagram_03_hcl_bluegreen_run diagram_04_edx_main_run diagram_04_edx_migration_run
  diagram_04_incident_response_run diagram_05_cisco_main_run diagram_05_cisco_scaling_run

lemma main_run:
  assumes "list_all (\<lambda>n. ready_for n w) [''01-idp-main'', ''01-idp-gitops'', ''02-edge-cloud-main'',
     ''02-edge-device'', ''02-cicd-pipeline'', ''03-hcl-main'', ''03-hcl-bluegreen'', ''04-edx-main'',
     ''04-edx-migration'', ''04-incident-response'', ''05-cisco-main'', ''05-cisco-scaling'']"
    and "fresh w = 0"
  shows "run_state main w = ((), fold (\<lambda>a w. perform w a) main_actions w)"
proof -
  have "exc w = None" using assms by (simp add: ready_for_def)
  then show ?thesis using assms
  by (simp add: main_def main_actions_def py_print_run ready_for_out_upd ready_for_rendered
      diagram_01_idp_main_run later_diagrams_run)
qed

text \<open>\<open>main\<close> run before \<open>OUTPUT_DIR\<close> exists: the first diagram creates it
  (Graphviz's \<open>save\<close>), and the run goes on as from the file system where it
  exists.\<close>


text \<open>\<open>main\<close> run before \<open>OUTPUT_DIR\<close> exists: the first diagram creates it
  (Graphviz's \<open>save\<close>), and the run goes on as from the file system where it
  exists.\<close>

lemma main_run_creates:
  assumes ok: "fs_ok (fs w)" "list_all (not_file (fs w)) (ancestors out_dir)"
    and ready: "list_all (\<lambda>n. ready_for n (w\<lparr>fs := mk_dirs out_dir (fs w)\<rparr>)) [''01-idp-main'', ''01-idp-gitops'',
     ''02-edge-cloud-main'', ''02-edge-device'', ''02-cicd-pipeline'', ''03-hcl-main'', ''03-hcl-bluegreen'',
     ''04-edx-main'', ''04-edx-migration'', ''04-incident-response'', ''05-cisco-main'', ''05-cisco-scaling'']"
    and "fresh w = 0"
  shows "run_state main w = ((), fold (\<lambda>a w. perform w a) main_actions (w\<lparr>fs := mk_dirs out_dir (fs w)\<rparr>))"
proof -
  have "exc w = None" using ready by (simp add: ready_for_def)
  have first: "run_state diagram_01_idp_main (w\<lparr>out := x\<rparr>) =
      ((), rendered ''01-idp-main'' (image_01_idp_main (fresh w)) (fresh w + 21)
             (w\<lparr>fs := mk_dirs out_dir (fs w), out := x\<rparr>))" for x
  proof -
    have eq: "w\<lparr>out := x, fs := mk_dirs out_dir (fs w)\<rparr> = w\<lparr>fs := mk_dirs out_dir (fs w), out := x\<rparr>"
      by (cases w) simp
    show ?thesis
      using ok ready by (subst diagram_01_idp_main_creates) (simp_all add: ready_for_out_upd eq)
  qed
  show ?thesis using assms \<open>exc w = None\<close>
  by (simp add: main_def main_actions_def py_print_run ready_for_out_upd ready_for_out_fs_upd
      ready_for_rendered first later_diagrams_run)
qed

lemma perform_exc: "exc (perform w a) = exc w"
  by (cases a) simp_all

lemma fold_perform_exc: "exc (fold (\<lambda>a w. perform w a) as w) = exc w"
  by (induction as arbitrary: w) (simp_all add: perform_exc)

lemma fold_perform_ctx: "ctx w = None \<Longrightarrow> ctx (fold (\<lambda>a w. perform w a) as w) = None"
proof (induction as arbitrary: w)
  case (Cons a as)
  then show ?case by (cases a) (simp_all add: rendered_def)
qed simp

lemma fold_perform_out:
  "out (fold (\<lambda>a w. perform w a) as w) = out w @ concat (map action_events as)"
proof (induction as arbitrary: w)
  case (Cons a as)
  then show ?case by (cases a) (simp_all add: rendered_def render_events_def)
qed simp

lemma fold_perform_fs:
  "fs (fold (\<lambda>a w. perform w a) as w) = store_images (draws as) (fs w)"
proof (induction as arbitrary: w)
  case Nil
  then show ?case by (simp add: store_images_def)
next
  case (Cons a as)
  then show ?case by (cases a) (simp_all add: rendered_def store_images_def)
qed


lemma store_images_other:
  "list_all (\<lambda>(m, e). p \<noteq> out_dir @ [m @ ''.png''] \<and> p \<noteq> out_dir @ [m]) imgs \<Longrightarrow>
   store_images imgs g p = g p"
  by (induction imgs arbitrary: g) (auto simp: store_images_def)

lemma store_images_lookup:
  assumes "distinct (map fst imgs)"
    and "list_all (\<lambda>a. list_all (\<lambda>b. a \<noteq> b @ ''.png'') (map fst imgs)) (map fst imgs)"
    and "(n, d) \<in> set imgs"
  shows "store_images imgs g (out_dir @ [n @ ''.png'']) = Some (File (Png d)) \<and>
         store_images imgs g (out_dir @ [n]) = None"
  using assms
proof (induction imgs arbitrary: g)
  case (Cons img imgs)
  obtain m e where img: "img = (m, e)" by (cases img)
  show ?case
  proof (cases "(n, d) = (m, e)")
    case True
    have fresh: "n \<notin> fst ` set imgs" "\<forall>b\<in>fst ` set imgs. n \<noteq> b @ ''.png''"
      "\<forall>a\<in>fst ` set imgs. a \<noteq> n @ ''.png''"
      using Cons.prems True img by (auto simp: list_all_iff)
    have other: "list_all (\<lambda>(m', e'). q \<noteq> out_dir @ [m' @ ''.png''] \<and> q \<noteq> out_dir @ [m']) imgs"
      if "q = out_dir @ [n @ ''.png''] \<or> q = out_dir @ [n]" for q
      using fresh that by (force simp: list_all_iff)
    have step: "store_images (img # imgs) g =
        store_images imgs (g(out_dir @ [n @ ''.png''] \<mapsto> File (Png d), out_dir @ [n] := None))"
      using True img by (simp add: store_images_def)
    show ?thesis
      unfolding step using store_images_other[OF other] by simp
  next
    case False
    then have "(n, d) \<in> set imgs" using Cons.prems(3) img by auto
    moreover have "distinct (map fst imgs)"
      and "list_all (\<lambda>a. list_all (\<lambda>b. a \<noteq> b @ ''.png'') (map fst imgs)) (map fst imgs)"
      using Cons.prems(1,2) by (simp_all add: list_all_iff)
    ultimately show ?thesis using Cons.IH by (simp add: store_images_def img)
  qed
qed simp

lemma module_init_run:
  assumes "fs_ok f" "list_all (not_file f) (ancestors out_dir)"
  shows "run_state module_init (init_world f dot) = ((), (start_world f)\<lparr>dot_available := dot\<rparr>)"
proof -
  have "makedirs True out_dir f = Inr (mk_dirs out_dir f)"
    using assms by (rule makedirs_exist_ok)
  then show ?thesis
    by (simp add: module_init_def os_makedirs_def fs_op_def guarded_def init_world_def
        start_world_def path_of_OUTPUT_DIR)
qed

lemma start_world_ready:
  assumes "runnable f"
  shows "list_all (\<lambda>n. ready_for n (start_world f)) (map fst script_images)"
proof -
  have nf: "list_all (not_file f) (ancestors out_dir)"
    and clear: "list_all (\<lambda>(n, d). f (out_dir @ [n]) \<noteq> Some Dir \<and> f (out_dir @ [n @ ''.png'']) \<noteq> Some Dir)
       script_images"
    using assms by (simp_all add: runnable_def)
  have dir: "is_dir (mk_dirs out_dir f) out_dir" "is_dir (mk_dirs out_dir f) (butlast out_dir)"
    using nf by (rule mk_dirs_is_dir; simp add: out_dir_def ancestors_def)+
  show ?thesis
    using dir clear by (simp add: ready_for_def start_world_def init_world_def script_images_def mk_dirs_beyond)
qed

lemma script_result_actions:
  assumes "runnable f"
  shows "script_result f = fold (\<lambda>a w. perform w a) main_actions (start_world f)"
proof -
  have init: "run_state module_init (init_world f True) = ((), start_world f)"
    using module_init_run[of f True] assms by (simp add: runnable_def start_world_def init_world_def)
  have "fresh (start_world f) = 0" by (simp add: start_world_def init_world_def)
  with start_world_ready[OF assms]
  have "run_state main (start_world f) = ((), fold (\<lambda>a w. perform w a) main_actions (start_world f))"
    by (intro main_run) (simp_all add: script_images_def)
  with init show ?thesis by (simp add: script_result_def run_script_def)
qed

lemma script_result_out:
  assumes "runnable f"
  shows "out (script_result f) = script_trace"
proof -
  have "out (script_result f) = out (start_world f) @ concat (map action_events main_actions)"
    by (simp only: script_result_actions[OF assms] fold_perform_out)
  then show ?thesis by (simp add: start_world_def init_world_def main_actions_def script_trace_def)
qed

lemma script_fs:
  assumes "runnable f"
  shows "fs (script_result f) = store_images script_images (mk_dirs out_dir f)"
proof -
  have "fs (script_result f) = store_images (draws main_actions) (fs (start_world f))"
    by (simp only: script_result_actions[OF assms] fold_perform_fs)
  then show ?thesis by (simp add: start_world_def init_world_def main_actions_def script_images_def)
qed

text \<open>The facts that evaluate every image of \<open>script_images\<close> to its diagram.\<close>

lemmas script_image_defs = script_images_def image_simps
  diagram_01_idp_main_body_def image_01_idp_main_def
  diagram_01_idp_gitops_body_def image_01_idp_gitops_def
  diagram_02_edge_cloud_main_body_def image_02_edge_cloud_main_def
  diagram_02_edge_device_body_def image_02_edge_device_def
  diagram_02_cicd_pipeline_body_def image_02_cicd_pipeline_def
  diagram_03_hcl_main_body_def image_03_hcl_main_def
  diagram_03_hcl_bluegreen_body_def image_03_hcl_bluegreen_def
  diagram_04_edx_main_body_def image_04_edx_main_def
  diagram_04_edx_migration_body_def image_04_edx_migration_def
  diagram_04_incident_response_body_def image_04_incident_response_def
  diagram_05_cisco_main_body_def image_05_cisco_main_def
  diagram_05_cisco_scaling_body_def image_05_cisco_scaling_def

lemma runnable_empty: "runnable Map.empty"
  by (simp add: runnable_def fs_ok_def not_file_def ancestors_def script_images_def out_dir_def)

subsection \<open>The run when \<open>dot\<close> is missing\<close>

lemma diagram_01_idp_main_inert:
  "exc w \<noteq> None \<Longrightarrow> run_state diagram_01_idp_main w = ((), w)"
  by (rule unit_run) (simp only: diagram_01_idp_main_def diagram_01_idp_main_body_def inert_simps)

lemma diagram_01_idp_gitops_inert:
  "exc w \<noteq> None \<Longrightarrow> run_state diagram_01_idp_gitops w = ((), w)"
  by (rule unit_run) (simp only: diagram_01_idp_gitops_def diagram_01_idp_gitops_body_def inert_simps)

lemma diagram_02_edge_cloud_main_inert:
  "exc w \<noteq> None \<Longrightarrow> run_state diagram_02_edge_cloud_main w = ((), w)"
  by (rule unit_run) (simp only: diagram_02_edge_cloud_main_def diagram_02_edge_cloud_main_body_def inert_simps)

lemma diagram_02_edge_device_inert:
  "exc w \<noteq> None \<Longrightarrow> run_state diagram_02_edge_device w = ((), w)"
  by (rule unit_run) (simp only: diagram_02_edge_device_def diagram_02_edge_device_body_def inert_simps)

lemma diagram_02_cicd_pipeline_inert:
  "exc w \<noteq> None \<Longrightarrow> run_state diagram_02_cicd_pipeline w = ((), w)"
  by (rule unit_run) (simp only: diagram_02_cicd_pipeline_def diagram_02_cicd_pipeline_body_def inert_simps)

lemma diagram_03_hcl_main_inert:
  "exc w \<noteq> None \<Longrightarrow> run_state diagram_03_hcl_main w = ((), w)"
  by (rule unit_run) (simp only: diagram_03_hcl_main_def diagram_03_hcl_main_body_def inert_simps)

lemma diagram_03_hcl_bluegreen_inert:
  "exc w \<noteq> None \<Longrightarrow> run_state diagram_03_hcl_bluegreen w = ((), w)"
  by (rule unit_run) (simp only: diagram_03_hcl_bluegreen_def diagram_03_hcl_bluegreen_body_def inert_simps)

lemma diagram_04_edx_main_inert:
  "exc w \<noteq> None \<Longrightarrow> run_state diagram_04_edx_main w = ((), w)"
  by (rule unit_run) (simp only: diagram_04_edx_main_def diagram_04_edx_main_body_def inert_simps)

lemma diagram_04_edx_migration_inert:
  "exc w \<noteq> None \<Longrightarrow> run_state diagram_04_edx_migration w = ((), w)"
  by (rule unit_run) (simp only: diagram_04_edx_migration_def diagram_04_edx_migration_body_def inert_simps)

lemma diagram_04_incident_response_inert:
  "exc w \<noteq> None \<Longrightarrow> run_state diagram_04_incident_response w = ((), w)"
  by (rule unit_run) (simp only: diagram_04_incident_response_def diagram_04_incident_response_body_def inert_simps)

lemma diagram_05_cisco_main_inert:
  "exc w \<noteq> None \<Longrightarrow> run_state diagram_05_cisco_main w = ((), w)"
  by (rule unit_run) (simp only: diagram_05_cisco_main_def diagram_05_cisco_main_body_def inert_simps)

lemma diagram_05_cisco_scaling_inert:
  "exc w \<noteq> None \<Longrightarrow> run_state diagram_05_cisco_scaling w = ((), w)"
  by (rule unit_run) (simp only: diagram_05_cisco_scaling_def diagram_05_cisco_scaling_body_def inert_simps)

lemma diagram_01_idp_main_no_dot:
  "ready_for ''01-idp-main'' (w\<lparr>dot_available := True\<rparr>) \<Longrightarrow> \<not> dot_available w \<Longrightarrow>
   run_state diagram_01_idp_main w =
     ((), w\<lparr>fs := (fs w)(out_dir @ [''01-idp-main''] \<mapsto> File (DotSource (image_01_idp_main (fresh w)))),
            out := out w @ [Mkdirs out_dir, Wrote (out_dir @ [''01-idp-main''])], exc := Some ExecutableNotFound,
            ctx := Some (image_01_idp_main (fresh w)), fresh := fresh w + 21\<rparr>)"
  unfolding diagram_01_idp_main_def
  using image_01_idp_main_ok[of "fresh w"]
  by (intro script_diagram_no_dot)
     (auto simp: ready_for_def valid_direction_def py_upper_def upper_char_def Let_def
      diagram_01_idp_main_body_run)

text \<open>Under a pending exception \<open>main\<close> does nothing at all.\<close>

lemma main_inert: "exc w \<noteq> None \<Longrightarrow> run_state main w = ((), w)"
  by (simp add: main_def py_print_inert
      diagram_01_idp_main_inert diagram_01_idp_gitops_inert diagram_02_edge_cloud_main_inert
      diagram_02_edge_device_inert diagram_02_cicd_pipeline_inert diagram_03_hcl_main_inert
      diagram_03_hcl_bluegreen_inert diagram_04_edx_main_inert diagram_04_edx_migration_inert
      diagram_04_incident_response_inert diagram_05_cisco_main_inert diagram_05_cisco_scaling_inert)

text \<open>The image names are distinct, and none is another name with \<open>.png\<close> added.\<close>

lemma script_images_names:
  "distinct (map fst script_images)"
  "list_all (\<lambda>a. list_all (\<lambda>b. a \<noteq> b @ ''.png'') (map fst script_images)) (map fst script_images)"
  by (simp_all add: script_images_def)

end
