(* ===== verification/Ops_Props.thy ===== *)
theory Ops_Props
  imports Scene
begin

text \<open>
  Contracts of the library operations in \<open>Diagrams_Ops\<close> for the forms the
  script writes: what \<open>>>\<close> adds to the diagram for a chain of nodes, a
  labelled or styled \<open>Edge\<close>, and a list of nodes on either side (lines
  111--208, 124, 427--429), and how a nested \<open>with Cluster\<close> block records its
  parent and restores it (the script nests clusters eight times).
\<close>

text \<open>The edge \<open>a >> b\<close> draws between two nodes: forward, no label.\<close>

definition plain_edge :: "nat \<Rightarrow> nat \<Rightarrow> dedge" where
  "plain_edge a b = \<lparr>e_src = a, e_dst = b, e_attrs = plain\<rparr>"

text \<open>A small diagram and bodies used to exercise the operations at concrete
  inputs.\<close>

definition demo_diagram :: diagram where
  "demo_diagram = new_diagram ''demo'' ''/demo'' False ''LR'' [] [] []"

definition demo_world :: dworld where
  "demo_world = snd (run_state (do { _ \<leftarrow> Node EC2 ''a''; Node EC2 ''b'' }) (template demo_diagram 0))"

subsection \<open>What \<open>>>\<close> draws\<close>

lemma connect_node:
  "exc w = None \<Longrightarrow> ctx w = Some d \<Longrightarrow> a \<in> set (node_ids d) \<Longrightarrow>
   run_state (connect a (ONode b) e) w =
     ((), w\<lparr>ctx := Some (d\<lparr>d_edges := d_edges d @ [\<lparr>e_src = a, e_dst = b, e_attrs = edge_attrs e\<rparr>]\<rparr>)\<rparr>)"
  by (simp add: connect_def guarded_def)

lemma node_ids_edges [simp]: "node_ids (d\<lparr>d_edges := es\<rparr>) = node_ids d"
  by (simp add: node_ids_def)

lemma connect_fan_out:
  "exc w = None \<Longrightarrow> ctx w = Some d \<Longrightarrow> a \<in> set (node_ids d) \<Longrightarrow>
   run_state (state_iter (\<lambda>b. connect a b e) (map ONode bs)) w =
     ((), w\<lparr>ctx := Some (d\<lparr>d_edges := d_edges d @
        map (\<lambda>b. \<lparr>e_src = a, e_dst = b, e_attrs = edge_attrs e\<rparr>) bs\<rparr>)\<rparr>)"
  by (induction bs arbitrary: w d) (simp_all add: connect_node)

lemma connect_fan_in:
  "exc w = None \<Longrightarrow> ctx w = Some d \<Longrightarrow> set xs \<subseteq> set (node_ids d) \<Longrightarrow>
   run_state (state_iter (\<lambda>x. rrshift_elem x (ONode b)) (map ONode xs)) w =
     ((), w\<lparr>ctx := Some (d\<lparr>d_edges := d_edges d @ map (\<lambda>a. plain_edge a b) xs\<rparr>)\<rparr>)"
  by (induction xs arbitrary: w d)
     (simp_all add: connect_node plain_edge_def plain_def node_edge_def edge_attrs_def edge_default_attrs_def edge_dir_def)

text \<open>C6: \<open>a >> b >> c\<close> (evaluated as \<open>(a >> b) >> c\<close>) adds the forward edges
  \<open>a \<rightarrow> b\<close> and \<open>b \<rightarrow> c\<close> and yields \<open>c\<close>; \<open>a >> Edge(label, color, style) >> c\<close>
  adds one forward edge \<open>a \<rightarrow> c\<close> carrying the edge's attributes.\<close>

theorem rshift_chain:
  assumes "exc w = None" "ctx w = Some d" "a \<in> set (node_ids d)" "b \<in> set (node_ids d)"
  shows "run_state (do { x \<leftarrow> rshift (ONode a) (ONode b); rshift x (ONode c) }) w =
           (ONode c, w\<lparr>ctx := Some (d\<lparr>d_edges := d_edges d @ [plain_edge a b, plain_edge b c]\<rparr>)\<rparr>) \<and>
         run_state (do { x \<leftarrow> rshift (ONode a) (Edge l co s); rshift x (ONode c) }) w =
           (ONode c, w\<lparr>ctx := Some (d\<lparr>d_edges := d_edges d @
              [\<lparr>e_src = a, e_dst = c, e_attrs = edge_attrs \<lparr>eo_node = Some a, eo_forward = True,
                 eo_reverse = False, eo_label = l, eo_color = co, eo_style = s\<rparr>\<rparr>]\<rparr>)\<rparr>)"
  using assms
  by (simp add: connect_node plain_edge_def plain_def node_edge_def edge_attrs_def edge_default_attrs_def edge_dir_def
      Edge_def)

theorem rshift_chain_witness:
  "run_state (do { x \<leftarrow> rshift (ONode 0) (ONode 1); rshift x (ONode 0) }) demo_world =
     (ONode 0, demo_world\<lparr>ctx := Some (the (ctx demo_world)\<lparr>d_edges :=
        d_edges (the (ctx demo_world)) @ [plain_edge 0 1, plain_edge 1 0]\<rparr>)\<rparr>)"
proof -
  have "exc demo_world = None" "ctx demo_world = Some (the (ctx demo_world))"
    "0 \<in> set (node_ids (the (ctx demo_world)))" "1 \<in> set (node_ids (the (ctx demo_world)))"
    by (simp_all add: demo_world_def template_def demo_diagram_def run_simps)
  from rshift_chain[OF this] show ?thesis by blast
qed

text \<open>C7: \<open>a >> [b1, ..., bn]\<close> adds a forward edge from \<open>a\<close> to each \<open>bi\<close>, in
  order, and yields the list; \<open>[a1, ..., an] >> b\<close> (\<open>Node.__rrshift__\<close>) adds a
  forward edge from each \<open>ai\<close> to \<open>b\<close> and yields \<open>b\<close>.\<close>

theorem rshift_lists:
  assumes "exc w = None" "ctx w = Some d" "a \<in> set (node_ids d)" "set xs \<subseteq> set (node_ids d)"
  shows "run_state (rshift (ONode a) (OList (map ONode bs))) w =
           (OList (map ONode bs), w\<lparr>ctx := Some (d\<lparr>d_edges := d_edges d @ map (plain_edge a) bs\<rparr>)\<rparr>) \<and>
         run_state (rshift (OList (map ONode xs)) (ONode b)) w =
           (ONode b, w\<lparr>ctx := Some (d\<lparr>d_edges := d_edges d @ map (\<lambda>x. plain_edge x b) xs\<rparr>)\<rparr>)"
  using assms
  by (simp add: connect_fan_out connect_fan_in plain_edge_def plain_def node_edge_def
      edge_attrs_def edge_default_attrs_def edge_dir_def)

theorem rshift_lists_witness:
  "run_state (rshift (ONode 0) (OList (map ONode [1, 0]))) demo_world =
     (OList (map ONode [1, 0]), demo_world\<lparr>ctx := Some (the (ctx demo_world)\<lparr>d_edges :=
        d_edges (the (ctx demo_world)) @ map (plain_edge 0) [1, 0]\<rparr>)\<rparr>)"
proof -
  have "exc demo_world = None" "ctx demo_world = Some (the (ctx demo_world))"
    "0 \<in> set (node_ids (the (ctx demo_world)))" "set [0, 1] \<subseteq> set (node_ids (the (ctx demo_world)))"
    by (simp_all add: demo_world_def template_def demo_diagram_def run_simps)
  from rshift_lists[OF this] show ?thesis by blast
qed

subsection \<open>Nested clusters\<close>

text \<open>C9: a \<open>with Cluster\<close> block opened inside another records the enclosing
  cluster as its parent with depth one more than the parent's; nodes the
  body creates belong to it; on leaving it, its subgraph is attached and the
  enclosing cluster is current again.\<close>

theorem with_Cluster_nests:
  assumes "exc w = None" "ctx w = Some d" "cur_cluster w = Some p"
    and body: "run_state body (w\<lparr>ctx := Some (d\<lparr>d_clusters := d_clusters d @
                 [\<lparr>c_id = fresh w, c_label = l, c_direction = ''LR'', c_parent = Some p,
                    c_depth = Suc (cluster_depth d p)\<rparr>]\<rparr>),
               cur_cluster := Some (fresh w), fresh := Suc (fresh w)\<rparr>) = (r, w')"
    and "cur_cluster w' = Some (fresh w)" "ctx w' \<noteq> None" "cluster_parent (the (ctx w')) (fresh w) = Some p"
  shows "run_state (with_Cluster l body) w =
           (r, w'\<lparr>ctx := Some (the (ctx w')\<lparr>d_subgraphs := d_subgraphs (the (ctx w')) @ [fresh w]\<rparr>),
                  cur_cluster := Some p\<rparr>)"
  using assms
  by (auto simp: with_Cluster_def cluster_enter_def cluster_exit_def guarded_def valid_direction_def
      py_upper_def upper_char_def Let_def)

theorem with_Cluster_nests_witness:
  "run_state (with_Cluster ''inner'' (Node EC2 ''n'')) ((template (demo_diagram\<lparr>d_clusters := [\<lparr>c_id = 0, c_label = ''outer'', c_direction = ''LR'', c_parent = None, c_depth = 0\<rparr>]\<rparr>) 1)\<lparr>cur_cluster := Some 0\<rparr>) =
   (fst (run_state (Node EC2 ''n'') (((template (demo_diagram\<lparr>d_clusters := [\<lparr>c_id = 0, c_label = ''outer'', c_direction = ''LR'', c_parent = None, c_depth = 0\<rparr>]\<rparr>) 1)\<lparr>cur_cluster := Some 0\<rparr>)\<lparr>ctx := Some ((demo_diagram\<lparr>d_clusters := [\<lparr>c_id = 0, c_label = ''outer'', c_direction = ''LR'', c_parent = None, c_depth = 0\<rparr>]\<rparr>)\<lparr>d_clusters := d_clusters (demo_diagram\<lparr>d_clusters := [\<lparr>c_id = 0, c_label = ''outer'', c_direction = ''LR'', c_parent = None, c_depth = 0\<rparr>]\<rparr>) @
       [\<lparr>c_id = fresh ((template (demo_diagram\<lparr>d_clusters := [\<lparr>c_id = 0, c_label = ''outer'', c_direction = ''LR'', c_parent = None, c_depth = 0\<rparr>]\<rparr>) 1)\<lparr>cur_cluster := Some 0\<rparr>), c_label = ''inner'', c_direction = ''LR'', c_parent = Some 0,
          c_depth = Suc (cluster_depth (demo_diagram\<lparr>d_clusters := [\<lparr>c_id = 0, c_label = ''outer'', c_direction = ''LR'', c_parent = None, c_depth = 0\<rparr>]\<rparr>) 0)\<rparr>]\<rparr>),
     cur_cluster := Some (fresh ((template (demo_diagram\<lparr>d_clusters := [\<lparr>c_id = 0, c_label = ''outer'', c_direction = ''LR'', c_parent = None, c_depth = 0\<rparr>]\<rparr>) 1)\<lparr>cur_cluster := Some 0\<rparr>)), fresh := Suc (fresh ((template (demo_diagram\<lparr>d_clusters := [\<lparr>c_id = 0, c_label = ''outer'', c_direction = ''LR'', c_parent = None, c_depth = 0\<rparr>]\<rparr>) 1)\<lparr>cur_cluster := Some 0\<rparr>))\<rparr>)),
    (snd (run_state (Node EC2 ''n'') (((template (demo_diagram\<lparr>d_clusters := [\<lparr>c_id = 0, c_label = ''outer'', c_direction = ''LR'', c_parent = None, c_depth = 0\<rparr>]\<rparr>) 1)\<lparr>cur_cluster := Some 0\<rparr>)\<lparr>ctx := Some ((demo_diagram\<lparr>d_clusters := [\<lparr>c_id = 0, c_label = ''outer'', c_direction = ''LR'', c_parent = None, c_depth = 0\<rparr>]\<rparr>)\<lparr>d_clusters := d_clusters (demo_diagram\<lparr>d_clusters := [\<lparr>c_id = 0, c_label = ''outer'', c_direction = ''LR'', c_parent = None, c_depth = 0\<rparr>]\<rparr>) @
       [\<lparr>c_id = fresh ((template (demo_diagram\<lparr>d_clusters := [\<lparr>c_id = 0, c_label = ''outer'', c_direction = ''LR'', c_parent = None, c_depth = 0\<rparr>]\<rparr>) 1)\<lparr>cur_cluster := Some 0\<rparr>), c_label = ''inner'', c_direction = ''LR'', c_parent = Some 0,
          c_depth = Suc (cluster_depth (demo_diagram\<lparr>d_clusters := [\<lparr>c_id = 0, c_label = ''outer'', c_direction = ''LR'', c_parent = None, c_depth = 0\<rparr>]\<rparr>) 0)\<rparr>]\<rparr>),
     cur_cluster := Some (fresh ((template (demo_diagram\<lparr>d_clusters := [\<lparr>c_id = 0, c_label = ''outer'', c_direction = ''LR'', c_parent = None, c_depth = 0\<rparr>]\<rparr>) 1)\<lparr>cur_cluster := Some 0\<rparr>)), fresh := Suc (fresh ((template (demo_diagram\<lparr>d_clusters := [\<lparr>c_id = 0, c_label = ''outer'', c_direction = ''LR'', c_parent = None, c_depth = 0\<rparr>]\<rparr>) 1)\<lparr>cur_cluster := Some 0\<rparr>))\<rparr>)))\<lparr>ctx := Some (the (ctx (snd (run_state (Node EC2 ''n'') (((template (demo_diagram\<lparr>d_clusters := [\<lparr>c_id = 0, c_label = ''outer'', c_direction = ''LR'', c_parent = None, c_depth = 0\<rparr>]\<rparr>) 1)\<lparr>cur_cluster := Some 0\<rparr>)\<lparr>ctx := Some ((demo_diagram\<lparr>d_clusters := [\<lparr>c_id = 0, c_label = ''outer'', c_direction = ''LR'', c_parent = None, c_depth = 0\<rparr>]\<rparr>)\<lparr>d_clusters := d_clusters (demo_diagram\<lparr>d_clusters := [\<lparr>c_id = 0, c_label = ''outer'', c_direction = ''LR'', c_parent = None, c_depth = 0\<rparr>]\<rparr>) @
       [\<lparr>c_id = fresh ((template (demo_diagram\<lparr>d_clusters := [\<lparr>c_id = 0, c_label = ''outer'', c_direction = ''LR'', c_parent = None, c_depth = 0\<rparr>]\<rparr>) 1)\<lparr>cur_cluster := Some 0\<rparr>), c_label = ''inner'', c_direction = ''LR'', c_parent = Some 0,
          c_depth = Suc (cluster_depth (demo_diagram\<lparr>d_clusters := [\<lparr>c_id = 0, c_label = ''outer'', c_direction = ''LR'', c_parent = None, c_depth = 0\<rparr>]\<rparr>) 0)\<rparr>]\<rparr>),
     cur_cluster := Some (fresh ((template (demo_diagram\<lparr>d_clusters := [\<lparr>c_id = 0, c_label = ''outer'', c_direction = ''LR'', c_parent = None, c_depth = 0\<rparr>]\<rparr>) 1)\<lparr>cur_cluster := Some 0\<rparr>)), fresh := Suc (fresh ((template (demo_diagram\<lparr>d_clusters := [\<lparr>c_id = 0, c_label = ''outer'', c_direction = ''LR'', c_parent = None, c_depth = 0\<rparr>]\<rparr>) 1)\<lparr>cur_cluster := Some 0\<rparr>))\<rparr>))))\<lparr>d_subgraphs :=
       d_subgraphs (the (ctx (snd (run_state (Node EC2 ''n'') (((template (demo_diagram\<lparr>d_clusters := [\<lparr>c_id = 0, c_label = ''outer'', c_direction = ''LR'', c_parent = None, c_depth = 0\<rparr>]\<rparr>) 1)\<lparr>cur_cluster := Some 0\<rparr>)\<lparr>ctx := Some ((demo_diagram\<lparr>d_clusters := [\<lparr>c_id = 0, c_label = ''outer'', c_direction = ''LR'', c_parent = None, c_depth = 0\<rparr>]\<rparr>)\<lparr>d_clusters := d_clusters (demo_diagram\<lparr>d_clusters := [\<lparr>c_id = 0, c_label = ''outer'', c_direction = ''LR'', c_parent = None, c_depth = 0\<rparr>]\<rparr>) @
       [\<lparr>c_id = fresh ((template (demo_diagram\<lparr>d_clusters := [\<lparr>c_id = 0, c_label = ''outer'', c_direction = ''LR'', c_parent = None, c_depth = 0\<rparr>]\<rparr>) 1)\<lparr>cur_cluster := Some 0\<rparr>), c_label = ''inner'', c_direction = ''LR'', c_parent = Some 0,
          c_depth = Suc (cluster_depth (demo_diagram\<lparr>d_clusters := [\<lparr>c_id = 0, c_label = ''outer'', c_direction = ''LR'', c_parent = None, c_depth = 0\<rparr>]\<rparr>) 0)\<rparr>]\<rparr>),
     cur_cluster := Some (fresh ((template (demo_diagram\<lparr>d_clusters := [\<lparr>c_id = 0, c_label = ''outer'', c_direction = ''LR'', c_parent = None, c_depth = 0\<rparr>]\<rparr>) 1)\<lparr>cur_cluster := Some 0\<rparr>)), fresh := Suc (fresh ((template (demo_diagram\<lparr>d_clusters := [\<lparr>c_id = 0, c_label = ''outer'', c_direction = ''LR'', c_parent = None, c_depth = 0\<rparr>]\<rparr>) 1)\<lparr>cur_cluster := Some 0\<rparr>))\<rparr>))))) @ [fresh ((template (demo_diagram\<lparr>d_clusters := [\<lparr>c_id = 0, c_label = ''outer'', c_direction = ''LR'', c_parent = None, c_depth = 0\<rparr>]\<rparr>) 1)\<lparr>cur_cluster := Some 0\<rparr>)]\<rparr>),
     cur_cluster := Some 0\<rparr>)"
  by (rule with_Cluster_nests)
     (auto simp: template_def demo_diagram_def new_diagram_def run_simps cluster_depth_def
      cluster_parent_def)

end
