(* ===== verification/Spec2Isabelle.thy ===== *)
theory Spec2Isabelle
  imports Script_Main Ops_Props
begin

text \<open>
  Verification development for \<open>src/upwork-portfolios/diagrams/generate_diagrams.py\<close>,
  the script that draws twelve architecture diagrams with the \<open>diagrams\<close>
  library (mingrammer) and Graphviz.

  \<^bold>\<open>The program.\<close> At import time the script fixes \<open>OUTPUT_DIR\<close> (line 49),
  creates it with \<open>os.makedirs(OUTPUT_DIR, exist_ok=True)\<close> (line 50) and
  defines three attribute dictionaries (lines 53--66). Twelve functions
  \<open>diagram_*\<close> (lines 69--540) each open a \<open>with Diagram(...)\<close> block, create
  nodes (one icon class per node), group some in nested \<open>with Cluster(...)\<close>
  blocks, and connect nodes with \<open>>>\<close>, sometimes through an
  \<open>Edge(label, style)\<close> or a list of nodes. Leaving the block renders the
  diagram: Graphviz creates the directory of \<open>filename\<close> if needed
  (\<open>os.makedirs(dirname, exist_ok=True)\<close>), saves the dot source there,
  \<open>dot\<close> writes \<open>filename.png\<close>, and the library removes the source. The
  \<open>__main__\<close> block (lines 543--571) prints progress lines, calls the twelve
  functions in a fixed order and prints two closing lines.

  \<^bold>\<open>Theories.\<close>
  \<^item> \<open>Prelude\<close>: Python string helpers (\<open>str.split\<close>, \<open>str.upper\<close>,
    \<open>str.lower\<close>), an iteration combinator for the state monad, the
    \<open>run_simps\<close> collection.
  \<^item> \<open>Py_OS\<close>: the process state \<open>'c world\<close> (file system, output log,
    pending exception), a POSIX file-system tree, \<open>os.path.dirname\<close>,
    \<open>os.makedirs\<close> as CPython implements it, \<open>open(...,'w')\<close>, \<open>os.remove\<close>
    and \<open>print\<close>. Every primitive is \<open>guarded\<close>: once an exception is
    pending, nothing else runs, as in Python.
  \<^item> \<open>Diagrams_Lib\<close> and \<open>Diagrams_Ops\<close>: the part of the \<open>diagrams\<close> library
    and of Graphviz the script uses, modelled from their documented
    behaviour since they are not part of the repository: the global diagram
    context, \<open>Diagram\<close> and \<open>Cluster\<close> as context managers with the checks of
    their \<open>__init__\<close>, node creation with fresh ids (standing for \<open>uuid4\<close>),
    \<open>Edge\<close> with its default attributes, \<open>connect\<close>, \<open>>>\<close> dispatched on its
    operand types, and Graphviz's \<open>render\<close> (directory creation, save, \<open>dot\<close>).
  \<^item> \<open>Scene\<close>: what a rendered diagram shows and the checks on it: the tables
    are well formed, every edge joins two nodes of the diagram, the edge
    graph is acyclic (a topological sort proved sound against \<open>acyclic\<close>),
    clusters are attached and distinctly named, at most one public cloud.
  \<^item> \<open>Ops_Props\<close>: contracts of the library operations for the forms the
    script writes: \<open>>>\<close> on chains, edges and lists; nested clusters.
  \<^item> \<open>Script_Module\<close>: the module globals of the script and the generic
    lemmas that one \<open>diagram_*\<close> function renders its image, also when
    \<open>OUTPUT_DIR\<close> is still missing, and how it fails without \<open>dot\<close>.
  \<^item> \<open>Script_Diagrams_A\<close>, \<open>Script_Diagrams_B\<close>: the twelve diagram functions
    statement by statement, each with the lemma that computes its body, the
    lemma that its image passes the checks, and the lemma that the function
    writes exactly its image.
  \<^item> \<open>Script_Main\<close>: the \<open>__main__\<close> block, the whole run from the module
    prologue, and its refinement to a sequence of abstract actions (print a
    line, render an image); the run without Graphviz, where every function
    after the first is inert under the pending exception (\<open>inert_simps\<close> of
    \<open>Diagrams_Ops\<close> carries this through a body without unfolding it).
    \<open>script_images\<close> is the table of the twelve expected images (name and
    diagram at its first id), a specification the theorems compare the run
    against, not a translation of code.

  \<^bold>\<open>Main results.\<close> On every file system on which the run can succeed
  (\<open>runnable\<close>: the tree invariant holds, no prefix of \<open>OUTPUT_DIR\<close> is a
  regular file, no output path is a directory), the script finishes without
  an exception and its output (prints, writes, removals, directory creation)
  is exactly \<open>script_trace\<close> (C1); each of the twelve images is at its path
  and no dot source is left (C2); every image passes the checks of
  \<open>Scene\<close> (C3); \<open>main\<close> refines the abstract action sequence (C4). The
  import-time \<open>os.makedirs\<close> follows CPython's contract (C5) and is
  redundant: \<open>main\<close> alone leaves the same files, since Graphviz creates
  \<open>OUTPUT_DIR\<close> when it saves the first diagram (C11). The library forms the
  script uses behave as the library defines them: \<open>>>\<close> chains and edges
  (C6), \<open>>>\<close> with lists (C7), nested clusters (C9). Two failure modes of
  the code: without \<open>dot\<close> the run stops at the first diagram with
  \<open>ExecutableNotFound\<close> and leaves its dot source behind (C8); with a
  regular file on a prefix of \<open>OUTPUT_DIR\<close>, the import raises and nothing
  else happens (C10).

  \<^bold>\<open>Ids.\<close> The library names nodes with random \<open>uuid4\<close> values; the model
  draws them from the counter \<open>fresh\<close>, so each diagram function draws a fixed
  number of ids (21 for the first, 175 in all) and its image is a function of
  the first id (\<open>image_* k\<close>). No fuel is needed: every loop of the model is
  structural or has a termination measure (\<open>makedirs\<close>: the length of the
  path; the topological sort of \<open>Scene\<close>: the number of nodes left), so every
  operation is a total function; the script's only loops are the fixed
  sequence in \<open>main\<close> and the library's loops over finite lists.

  \<^bold>\<open>Not modelled.\<close> The layout Graphviz computes and the pixels of the
  images (an image is represented by the diagram it draws); Graphviz's own
  attribute defaults beyond those the library sets; file permissions and
  relative paths; encoding errors of \<open>print\<close>; nested \<open>Diagram\<close> blocks and
  \<open>list >> Edge\<close>, which the script does not use (the model raises
  \<open>NotModelled\<close>).
\<close>

subsection \<open>The whole run\<close>

text \<open>C1: run from the module prologue on any runnable file system, the script
  raises no exception, leaves no diagram context open, and its observable
  output (printed lines, files written, files removed) is exactly
  \<open>script_trace\<close>.\<close>

theorem script_runs_clean:
  assumes "runnable f"
  shows "exc (script_result f) = None \<and> ctx (script_result f) = None \<and>
         out (script_result f) = script_trace"
proof -
  have "exc (script_result f) = exc (start_world f)"
       "ctx (start_world f) = None \<Longrightarrow> ctx (script_result f) = None"
    by (simp_all only: script_result_actions[OF assms] fold_perform_exc fold_perform_ctx)
  then show ?thesis
    by (simp add: start_world_def init_world_def script_result_out[OF assms])
qed

theorem script_runs_clean_witness:
  "runnable Map.empty \<and> exc (script_result Map.empty) = None"
  using script_runs_clean[OF runnable_empty] runnable_empty by simp

text \<open>C11: the import-time \<open>os.makedirs(OUTPUT_DIR, exist_ok=True)\<close> is
  redundant on every runnable file system: \<open>main\<close> run from a fresh
  interpreter without the module prologue raises nothing and leaves exactly
  the same files, because Graphviz's \<open>save\<close> creates \<open>OUTPUT_DIR\<close> when the
  first diagram is rendered; the only difference is the prologue's own
  \<open>Mkdirs\<close> event at the head of the trace.\<close>

theorem main_without_prologue:
  assumes "runnable f"
  shows "let w = snd (run_state main (init_world f True)) in
           exc w = None \<and> fs w = fs (script_result f) \<and> out (script_result f) = Mkdirs out_dir # out w"
proof -
  let ?w1 = "(init_world f True)\<lparr>fs := mk_dirs out_dir f\<rparr>"
  have ok: "fs_ok f" "list_all (not_file f) (ancestors out_dir)" using assms by (simp_all add: runnable_def)
  have sw: "start_world f = ?w1\<lparr>out := [Mkdirs out_dir]\<rparr>"
    by (simp add: start_world_def init_world_def)
  have "list_all (\<lambda>n. ready_for n ?w1) (map fst script_images)"
    using start_world_ready[OF assms] by (simp only: sw ready_for_out_upd)
  moreover have "fs (init_world f True) = f" "fresh (init_world f True) = 0"
    by (simp_all add: init_world_def)
  ultimately have "run_state main (init_world f True) = ((), fold (\<lambda>a w. perform w a) main_actions ?w1)"
    using ok main_run_creates[of "init_world f True"] by (simp add: script_images_def)
  then show ?thesis
    by (simp add: Let_def script_result_actions[OF assms] sw fold_perform_exc fold_perform_out
        fold_perform_fs init_world_def)
qed

theorem main_without_prologue_witness:
  "runnable Map.empty \<and>
   (let w = snd (run_state main (init_world Map.empty True)) in
      exc w = None \<and> fs w = fs (script_result Map.empty) \<and> out (script_result Map.empty) = Mkdirs out_dir # out w)"
  by (rule conjI[OF runnable_empty main_without_prologue[OF runnable_empty]])

text \<open>C2: after the run, for each of the twelve images, the file
  \<open>OUTPUT_DIR/name.png\<close> holds the image's diagram and the dot source
  \<open>OUTPUT_DIR/name\<close> is gone.\<close>

theorem script_images_stored:
  assumes "runnable f" and "(n, d) \<in> set script_images"
  shows "fs (script_result f) (out_dir @ [n @ ''.png'']) = Some (File (Png d)) \<and>
         fs (script_result f) (out_dir @ [n]) = None"
  using store_images_lookup[OF script_images_names assms(2)] by (simp add: script_fs[OF assms(1)])

theorem script_images_stored_witness:
  "fs (script_result Map.empty) (out_dir @ [''04-edx-main.png'']) =
     Some (File (Png (image_04_edx_main 104)))"
proof -
  have "(''04-edx-main'', image_04_edx_main 104) \<in> set script_images"
    by (simp add: script_images_def)
  from script_images_stored[OF runnable_empty this] show ?thesis by simp
qed

subsection \<open>The images\<close>

text \<open>C3: every image the script draws is well formed, every edge joins two
  of its nodes, its edge graph is acyclic, its clusters are attached and
  distinctly named, it uses at most one public cloud, and it is written as a
  PNG at \<open>OUTPUT_DIR/name\<close>.\<close>

theorem script_images_sound:
  "list_all (\<lambda>(n, d). scene_ok d \<and> acyclic (set (edge_pairs d)) \<and>
      d_filename d = OUTPUT_DIR @ ''/'' @ n \<and> d_outformat d = ''png'') script_images"
  using image_01_idp_main_ok[of 0] image_01_idp_gitops_ok[of 21]
    image_02_edge_cloud_main_ok[of 34] image_02_edge_device_ok[of 52]
    image_02_cicd_pipeline_ok[of 64] image_03_hcl_main_ok[of 75]
    image_03_hcl_bluegreen_ok[of 93] image_04_edx_main_ok[of 104]
    image_04_edx_migration_ok[of 128] image_04_incident_response_ok[of 137]
    image_05_cisco_main_ok[of 147] image_05_cisco_scaling_ok[of 167]
  by (simp add: script_images_def Let_def scene_ok_acyclic)

subsection \<open>Refinement of \<open>main\<close>\<close>

text \<open>C4: \<open>main\<close>, started in any state where each of the twelve images can be
  written and no id has been drawn yet, behaves as the abstract action
  sequence \<open>main_actions\<close>: print the progress lines and render each image,
  in the order of the source.\<close>

theorem main_refines:
  assumes "list_all (\<lambda>n. ready_for n w) (map fst script_images)" "fresh w = 0"
  shows "run_state main w = ((), fold (\<lambda>a w. perform w a) main_actions w)"
  using assms by (intro main_run) (simp_all add: script_images_def)

theorem main_refines_witness:
  "run_state main (start_world Map.empty) =
     ((), fold (\<lambda>a w. perform w a) main_actions (start_world Map.empty))"
proof -
  have "list_all (\<lambda>n. ready_for n (start_world Map.empty)) (map fst script_images)"
    by (simp add: script_images_def ready_for_def start_world_def init_world_def mk_dirs_def
        ancestors_def out_dir_def is_dir_def)
  moreover have "fresh (start_world Map.empty) = 0" by (simp add: start_world_def init_world_def)
  ultimately show ?thesis by (rule main_refines)
qed

subsection \<open>Running without Graphviz\<close>

text \<open>C8: when the \<open>dot\<close> executable is missing, the script stops at the first
  diagram with \<open>ExecutableNotFound\<close>: the dot source
  \<open>OUTPUT_DIR/01-idp-main\<close> is left on disk, the global diagram stays set, no
  PNG is written, and nothing after the first three progress lines is
  printed.\<close>

theorem script_without_dot:
  assumes "runnable f"
  shows "let w = snd (run_state run_script (init_world f False)) in
    exc w = Some ExecutableNotFound \<and> ctx w = Some (image_01_idp_main 0) \<and>
    fs w (out_dir @ [''01-idp-main'']) = Some (File (DotSource (image_01_idp_main 0))) \<and>
    list_all (\<lambda>n. fs w (out_dir @ [n @ ''.png'']) = f (out_dir @ [n @ ''.png''])) (map fst script_images) \<and>
    out w = take 4 script_trace @ [Mkdirs out_dir, Wrote (out_dir @ [''01-idp-main''])]"
proof -
  let ?w0 = "(start_world f)\<lparr>dot_available := False\<rparr>"
  have init: "run_state module_init (init_world f False) = ((), ?w0)"
    using module_init_run[of f False] assms by (simp add: runnable_def)
  have ready: "ready_for ''01-idp-main'' (start_world f)"
    using start_world_ready[OF assms] by (simp add: script_images_def)
  show ?thesis
    using init ready
    by (simp add: run_script_def main_def Let_def py_print_run ready_for_def
        diagram_01_idp_main_no_dot py_print_inert
        diagram_01_idp_gitops_inert diagram_02_edge_cloud_main_inert diagram_02_edge_device_inert
        diagram_02_cicd_pipeline_inert diagram_03_hcl_main_inert diagram_03_hcl_bluegreen_inert
        diagram_04_edx_main_inert diagram_04_edx_migration_inert diagram_04_incident_response_inert
        diagram_05_cisco_main_inert diagram_05_cisco_scaling_inert
        start_world_def init_world_def script_images_def script_trace_def mk_dirs_beyond)
qed

theorem script_without_dot_witness:
  "exc (snd (run_state run_script (init_world Map.empty False))) = Some ExecutableNotFound"
  using script_without_dot[OF runnable_empty] by (simp add: Let_def)

text \<open>C10: when a prefix of \<open>OUTPUT_DIR\<close> is a regular file, the import
  fails: \<open>os.makedirs(OUTPUT_DIR, exist_ok=True)\<close> raises, \<open>main\<close> never
  runs, nothing is printed and the file system is left as it was.\<close>

theorem script_output_dir_blocked:
  assumes "fs_ok f" and "\<not> list_all (not_file f) (ancestors out_dir)"
  shows "\<exists>e. script_result f = (init_world f True)\<lparr>exc := Some e\<rparr>"
proof -
  obtain e where e: "makedirs True out_dir f = Inl e"
    using makedirs_file_on_path[OF assms] by blast
  have "run_state module_init (init_world f True) = ((), (init_world f True)\<lparr>exc := Some e\<rparr>)"
    using e by (simp add: module_init_def os_makedirs_def fs_op_def guarded_def init_world_def
        OUTPUT_DIR_def out_dir_def path_of_def)
  then have "script_result f = (init_world f True)\<lparr>exc := Some e\<rparr>"
    by (simp add: script_result_def run_script_def main_inert)
  then show ?thesis by blast
qed

theorem script_output_dir_blocked_witness:
  "let f = (Map.empty([''Users''] \<mapsto> File (DotSource (new_diagram [] [] False ''LR'' [] [] []))) :: content fs)
   in \<exists>e. script_result f = (init_world f True)\<lparr>exc := Some e\<rparr>"
  unfolding Let_def
  by (rule script_output_dir_blocked) (simp_all add: fs_ok_def not_file_def ancestors_def out_dir_def)

end
